theory Spec2Isabelle
  imports Main "HOL-Library.AList"
begin

section \<open>The m,n,k game state (AlphaZero/env/mnk.py)\<close>

text \<open>
  Exceptions of the game state. \<open>IllegalMove\<close> carries the action whose string is
  the exception's message; \<open>IndexError\<close> is what a read of the board array outside its
  actual shape raises.
\<close>

datatype mnk_error = IllegalMove "int \<times> int" | IndexError

definition WHITE :: int where "WHITE = - 1"
definition BLACK :: int where "BLACK = 1"
definition EMPTY :: int where "EMPTY = 0"

text \<open>
  The attributes of a \<open>GameState\<close> object. The board is the two-dimensional integer
  array, row index first; \<open>winner\<close> is \<open>None\<close> until the game ends.
\<close>

record GameState =
  width :: int
  height :: int
  k :: int
  board :: "int list list"
  current_player :: int
  history :: "(int \<times> int) list"
  history_length :: int
  board_history :: "int list list list"
  is_end_of_game :: bool
  winner :: "int option"
  turns :: int

text \<open>
  \<open>__init__\<close>: the three dimensions come from the game configuration file and are
  parameters here.
\<close>

definition GameState_init :: "int \<Rightarrow> int \<Rightarrow> int \<Rightarrow> int \<Rightarrow> GameState" where
  "GameState_init w h kk hl =
     \<lparr> width = w, height = h, k = kk,
       board = replicate (nat h) (replicate (nat w) EMPTY),
       current_player = BLACK,
       history = [],
       history_length = hl,
       board_history = replicate (nat (hl - 1)) (replicate (nat h) (replicate (nat w) 0)),
       is_end_of_game = False,
       winner = None,
       turns = 0 \<rparr>"

fun on_board :: "GameState \<Rightarrow> int \<times> int \<Rightarrow> bool" where
  "on_board s (x, y) = (x \<ge> 0 \<and> y \<ge> 0 \<and> x < height s \<and> y < width s)"

text \<open>
  \<open>self.board[x][y]\<close>. Every read in the class stands behind \<open>_on_board\<close>, so the
  indices are never negative when the array is reached; an index beyond the array's
  shape raises.
\<close>

definition board_get :: "int list list \<Rightarrow> int \<Rightarrow> int \<Rightarrow> mnk_error + int" where
  "board_get b x y =
     (if 0 \<le> x \<and> x < int (length b)
      then (if 0 \<le> y \<and> y < int (length (b ! nat x))
            then Inr (b ! nat x ! nat y)
            else Inl IndexError)
      else Inl IndexError)"

definition board_set :: "int list list \<Rightarrow> int \<Rightarrow> int \<Rightarrow> int \<Rightarrow> int list list" where
  "board_set b x y v = b[nat x := (b ! nat x)[nat y := v]]"

fun is_legal :: "GameState \<Rightarrow> int \<times> int \<Rightarrow> mnk_error + bool" where
  "is_legal s (x, y) =
     (if \<not> on_board s (x, y) then Inr False
      else (case board_get (board s) x y of
              Inl e \<Rightarrow> Inl e
            | Inr v \<Rightarrow> if v \<noteq> EMPTY then Inr False else Inr True))"

text \<open>
  The eight counting loops of \<open>do_move\<close> differ only in the increments of
  \<open>xp\<close> and \<open>yp\<close>.
\<close>

datatype dir = XP | XM | YP | YM | XPYP | XMYM | XPYM | XMYP

fun delta :: "dir \<Rightarrow> int \<times> int" where
  "delta XP = (1, 0)"
| "delta XM = (- 1, 0)"
| "delta YP = (0, 1)"
| "delta YM = (0, - 1)"
| "delta XPYP = (1, 1)"
| "delta XMYM = (- 1, - 1)"
| "delta XPYM = (1, - 1)"
| "delta XMYP = (- 1, 1)"

fun dir_measure :: "GameState \<Rightarrow> dir \<Rightarrow> int \<times> int \<Rightarrow> nat" where
  "dir_measure s XP (xp, yp) = nat (height s - xp)"
| "dir_measure s XM (xp, yp) = nat (xp + 1)"
| "dir_measure s YP (xp, yp) = nat (width s - yp)"
| "dir_measure s YM (xp, yp) = nat (yp + 1)"
| "dir_measure s XPYP (xp, yp) = nat (height s - xp)"
| "dir_measure s XMYM (xp, yp) = nat (xp + 1)"
| "dir_measure s XPYM (xp, yp) = nat (height s - xp)"
| "dir_measure s XMYP (xp, yp) = nat (xp + 1)"

text \<open>
  \<open>while self._on_board((xp, yp)) and self.board[xp][yp] == self.current_player\<close>:
  step and count.
\<close>

function count_run :: "GameState \<Rightarrow> dir \<Rightarrow> int \<times> int \<Rightarrow> int \<Rightarrow> mnk_error + int" where
  "count_run s d (xp, yp) c =
     (if on_board s (xp, yp)
      then (case board_get (board s) xp yp of
              Inl e \<Rightarrow> Inl e
            | Inr v \<Rightarrow>
                if v = current_player s
                then count_run s d (xp + fst (delta d), yp + snd (delta d)) (c + 1)
                else Inr c)
      else Inr c)"
  by pat_completeness auto
termination
  by (relation "measure (\<lambda>(s, d, p, c). dir_measure s d p)") (auto, case_tac d, auto)

text \<open>One of the four counters: two loops, the second continuing the first's count.\<close>

definition count_line :: "GameState \<Rightarrow> dir \<Rightarrow> int \<times> int \<Rightarrow> dir \<Rightarrow> int \<times> int \<Rightarrow> mnk_error + int" where
  "count_line s d1 p1 d2 p2 =
     (case count_run s d1 p1 1 of
        Inl e \<Rightarrow> Inl e
      | Inr c \<Rightarrow> count_run s d2 p2 c)"

text \<open>The legal branch of \<open>do_move\<close>, entered with \<open>current_player\<close> already set to the colour.\<close>

definition do_move_legal :: "GameState \<Rightarrow> int \<times> int \<Rightarrow> int \<Rightarrow> (mnk_error + bool) \<times> GameState" where
  "do_move_legal s1 action color =
     (let x = fst action; y = snd action;
          s2 = s1\<lparr> board_history := tl (board_history s1 @ [board s1]),
                   history := history s1 @ [action],
                   board := board_set (board s1) x y color,
                   turns := turns s1 + 1 \<rparr>
      in case count_line s2 XP (x + 1, y) XM (x - 1, y) of
           Inl e \<Rightarrow> (Inl e, s2)
         | Inr h_count \<Rightarrow>
        (case count_line s2 YP (x, y + 1) YM (x, y - 1) of
           Inl e \<Rightarrow> (Inl e, s2)
         | Inr v_count \<Rightarrow>
        (case count_line s2 XPYP (x + 1, y + 1) XMYM (x - 1, y - 1) of
           Inl e \<Rightarrow> (Inl e, s2)
         | Inr diag1_count \<Rightarrow>
        (case count_line s2 XPYM (x + 1, y - 1) XMYP (x - 1, y + 1) of
           Inl e \<Rightarrow> (Inl e, s2)
         | Inr diag2_count \<Rightarrow>
             (let s3 = (if h_count \<ge> k s2 \<or> v_count \<ge> k s2
                           \<or> diag1_count \<ge> k s2 \<or> diag2_count \<ge> k s2
                        then s2\<lparr> is_end_of_game := True, winner := Some (current_player s2) \<rparr>
                        else if turns s2 = height s2 * width s2
                        then s2\<lparr> is_end_of_game := True, winner := Some 0 \<rparr>
                        else s2);
                  s4 = s3\<lparr> current_player := - color \<rparr>
              in (Inr (is_end_of_game s4), s4))))))"

text \<open>
  \<open>do_move(action, color=None)\<close>. The result is the returned flag or the exception
  raised, together with the object's attributes at that moment.
  \<open>color or self.current_player\<close> takes the current player for \<open>None\<close> and for \<open>0\<close>.
\<close>

definition do_move :: "GameState \<Rightarrow> int \<times> int \<Rightarrow> int option \<Rightarrow> (mnk_error + bool) \<times> GameState" where
  "do_move s action color_arg =
     (let color = (case color_arg of
                     None \<Rightarrow> current_player s
                   | Some c \<Rightarrow> if c = 0 then current_player s else c);
          reset_player = current_player s;
          s1 = s\<lparr> current_player := color \<rparr>
      in case is_legal s1 action of
           Inl e \<Rightarrow> (Inl e, s1)
         | Inr True \<Rightarrow> do_move_legal s1 action color
         | Inr False \<Rightarrow> (Inl (IllegalMove action), s1\<lparr> current_player := reset_player \<rparr>))"

section \<open>The self-play driver (AlphaZero/train/parallel/selfplay.py)\<close>

subsection \<open>Data\<close>

type_synonym addr = string
type_synonym bytes = string

text \<open>
  The Python objects that travel through the data queue and the sockets: a model
  identifier (a string) or the history of one game.
\<close>

datatype 'r pyobj = Str string | Game_record 'r

text \<open>An exception, by the name of its class.\<close>

datatype exn = Exn string

text \<open>
  What one call of \<open>Remote_Queue(addr, port).put(frame)\<close> does: the frame reaches the
  peer, the failure is reported inside \<open>put\<close> and the call returns, or an exception
  leaves the call.
\<close>

datatype put_result = Delivered | Reported | Raises exn

datatype handler = Remote_update_handler | Rcv_remote_data_handler | Model_update_handler

text \<open>The observable actions of the component, in the order the statements run.\<close>

datatype 'r event =
    R_acquire
  | R_release
  | Sem_acquire
  | Sem_release
  | Thread_start handler
  | Process_start nat
  | Queue_put "'r pyobj"
  | Remote_put addr nat "'r pyobj" put_result
  | Load "'r pyobj"
  | Bind nat
  | Listen
  | Accept addr
  | Recv bytes
  | Close addr

record game_config =
  name :: string

text \<open>\<open>remote\<close> is the result of \<open>ext_config.get('remote')\<close>: \<open>None\<close> when the key is absent.\<close>

record ext_config =
  num_worker :: nat
  remote_port :: nat
  remote_update_port :: nat
  remote :: "bool option"

text \<open>
  The state a \<open>Selfplay\<close> object works on. \<open>remote_worker_reg\<close> is the dictionary in
  insertion order; \<open>data_queue\<close> holds what was put on the queue; \<open>loaded\<close> is the
  argument of the evaluator's last \<open>load\<close>; \<open>readers\<close> counts the holders of the read
  side of \<open>nn_eval.rwlock\<close>; \<open>worker_lim\<close> is the value of the semaphore.
  \<open>launcher_holds\<close> says that the launcher stands between \<open>acquire\<close> and the start of
  the process, \<open>running\<close> counts the started worker processes whose
  \<open>selfplay_wrapper\<close> has not ended, \<open>threads\<close> lists the handler threads alive,
  \<open>trace\<close> is the record of the actions so far. Waiting is not represented, apart
  from the launcher's \<open>acquire\<close>: a \<open>put\<close> on a full queue, a \<open>recv\<close> on a peer that
  never closes and a \<open>load\<close> that waits for the readers are taken at the moment they
  return.
\<close>

record 'r selfplay =
  remote_worker_reg :: "(addr \<times> bool) list"
  data_queue :: "'r pyobj list"
  loaded :: "'r pyobj option"
  readers :: nat
  worker_lim :: nat
  launcher_holds :: bool
  running :: nat
  cnt :: nat
  threads :: "handler list"
  trace :: "'r event list"

definition Selfplay_init :: "ext_config \<Rightarrow> 'r selfplay" where
  "Selfplay_init ec =
     \<lparr> remote_worker_reg = [], data_queue = [], loaded = None, readers = 0,
       worker_lim = num_worker ec, launcher_holds = False, running = 0, cnt = 0,
       threads = [], trace = [] \<rparr>"

definition log :: "'r event \<Rightarrow> 'r selfplay \<Rightarrow> 'r selfplay" where
  "log e s = s\<lparr> trace := trace s @ [e] \<rparr>"

subsection \<open>Collaborators outside the sources\<close>

text \<open>
  Modelled from the spec: \<open>nn_eval.load\<close> of \<open>AlphaZero.evaluator.nn_eval_parallel\<close>,
  which is not among the sources. The spec's \<open>load(model_handle)\<close> swaps the active
  model handle of the evaluator.
\<close>

definition nn_load :: "'r pyobj \<Rightarrow> 'r selfplay \<Rightarrow> 'r selfplay" where
  "nn_load obj s = log (Load obj) (s\<lparr> loaded := Some obj \<rparr>)"

text \<open>
  Modelled from the spec: \<open>Remote_Queue.put\<close> of \<open>AlphaZero.train.parallel.util\<close>,
  which is not among the sources. The spec's sender opens an outbound connection and
  writes the frame; a failure to reach the remote is reported and the broadcast goes on.
  \<open>reachable\<close> says which addresses accept the connection.
\<close>

definition Remote_Queue_put :: "(addr \<Rightarrow> bool) \<Rightarrow> addr \<Rightarrow> nat \<Rightarrow> 'r pyobj \<Rightarrow> put_result" where
  "Remote_Queue_put reachable a port frame = (if reachable a then Delivered else Reported)"

subsection \<open>One self-play unit\<close>

text \<open>
  \<open>selfplay_wrapper\<close>. \<open>game\<close> is the outcome of creating the game, playing it and
  reading its history: the record or the exception raised; \<open>put_exn\<close> is the exception
  \<open>data_queue.put\<close> raises, if any. The function has no handler, so an exception ends it
  where it is raised.
\<close>

definition selfplay_wrapper ::
  "exn + 'r pyobj \<Rightarrow> exn option \<Rightarrow> 'r selfplay \<Rightarrow> exn option \<times> 'r selfplay" where
  "selfplay_wrapper game put_exn s =
     (let s1 = log R_acquire (s\<lparr> readers := readers s + 1 \<rparr>)
      in case game of
           Inl e \<Rightarrow> (Some e, s1)
         | Inr data \<Rightarrow>
             (case put_exn of
                Some e \<Rightarrow> (Some e, s1)
              | None \<Rightarrow>
                  (let s2 = log (Queue_put data) (s1\<lparr> data_queue := data_queue s1 @ [data] \<rparr>);
                       s3 = log R_release (s2\<lparr> readers := readers s2 - 1 \<rparr>);
                       s4 = log Sem_release (s3\<lparr> worker_lim := worker_lim s3 + 1 \<rparr>)
                   in (None, s4))))"

subsection \<open>The launcher\<close>

text \<open>\<open>run\<close>, up to the loop: the handler threads started.\<close>

definition run_threads :: "ext_config \<Rightarrow> handler list" where
  "run_threads ec =
     (if remote ec = Some True then [Remote_update_handler]
      else [Rcv_remote_data_handler, Model_update_handler])"

definition run_start :: "ext_config \<Rightarrow> 'r selfplay \<Rightarrow> 'r selfplay" where
  "run_start ec s =
     (s\<lparr> threads := run_threads ec, cnt := 0 \<rparr>)
        \<lparr> trace := trace s @ map Thread_start (run_threads ec) \<rparr>"

text \<open>
  The two statements of the loop of \<open>run\<close>. \<open>None\<close> is the statement not executing:
  \<open>acquire\<close> blocks while the semaphore is zero.
\<close>

definition launcher_acquire :: "'r selfplay \<Rightarrow> 'r selfplay option" where
  "launcher_acquire s =
     (if \<not> launcher_holds s \<and> worker_lim s > 0
      then Some (log Sem_acquire (s\<lparr> worker_lim := worker_lim s - 1, launcher_holds := True \<rparr>))
      else None)"

definition launcher_start :: "'r selfplay \<Rightarrow> 'r selfplay option" where
  "launcher_start s =
     (if launcher_holds s
      then Some (log (Process_start (cnt s))
                   (s\<lparr> launcher_holds := False, running := running s + 1, cnt := cnt s + 1 \<rparr>))
      else None)"

text \<open>A started worker process runs \<open>selfplay_wrapper\<close> and ends, with or without exception.\<close>

definition unit_exit :: "exn + 'r pyobj \<Rightarrow> exn option \<Rightarrow> 'r selfplay \<Rightarrow> 'r selfplay option" where
  "unit_exit game put_exn s =
     (if running s > 0
      then (let s' = snd (selfplay_wrapper game put_exn s) in Some (s'\<lparr> running := running s' - 1 \<rparr>))
      else None)"

subsection \<open>The model update handler\<close>

text \<open>
  The \<open>for\<close> loop over \<open>remote_worker_reg.items()\<close>, with the frame already computed.
  There is no handler around \<open>put\<close>: an exception leaving it ends the loop.
\<close>

fun notify_remotes ::
  "(addr \<Rightarrow> nat \<Rightarrow> 'r pyobj \<Rightarrow> put_result) \<Rightarrow> nat \<Rightarrow> 'r pyobj \<Rightarrow> (addr \<times> bool) list
     \<Rightarrow> 'r selfplay \<Rightarrow> exn option \<times> 'r selfplay" where
  "notify_remotes put port frame [] s = (None, s)"
| "notify_remotes put port frame ((a, _) # items) s =
     (case put a port frame of
        Raises e \<Rightarrow> (Some e, log (Remote_put a port frame (Raises e)) s)
      | r \<Rightarrow> notify_remotes put port frame items (log (Remote_put a port frame r) s))"

text \<open>
  One turn of the loop of \<open>model_update_handler\<close>, for the \<open>path\<close> received from
  \<open>r_conn\<close>. \<open>str\<close> is Python's \<open>str\<close> on the values the pipe carries. The source
  writes the identifier expression twice, and so does the model.
\<close>

definition model_update ::
  "(addr \<Rightarrow> nat \<Rightarrow> 'r pyobj \<Rightarrow> put_result) \<Rightarrow> ('p \<Rightarrow> string) \<Rightarrow> game_config \<Rightarrow> ext_config
     \<Rightarrow> 'p \<Rightarrow> 'r selfplay \<Rightarrow> exn option \<times> 'r selfplay" where
  "model_update put str gc ec path s =
     (case notify_remotes put (remote_update_port ec)
             (Str (''./'' @ name gc @ ''_model/ckpt-'' @ str path)) (remote_worker_reg s) s of
        (Some e, s1) \<Rightarrow> (Some e, s1)
      | (None, s1) \<Rightarrow> (None, nn_load (Str (''./'' @ name gc @ ''_model/ckpt-'' @ str path)) s1))"

text \<open>
  The handler on the paths the pipe delivers. \<open>Some e\<close> is the thread ended by an
  exception; \<open>None\<close> is the thread waiting in \<open>recv\<close> for the next path.
\<close>

fun model_update_handler ::
  "(addr \<Rightarrow> nat \<Rightarrow> 'r pyobj \<Rightarrow> put_result) \<Rightarrow> ('p \<Rightarrow> string) \<Rightarrow> game_config \<Rightarrow> ext_config
     \<Rightarrow> 'p list \<Rightarrow> 'r selfplay \<Rightarrow> exn option \<times> 'r selfplay" where
  "model_update_handler put str gc ec [] s = (None, s)"
| "model_update_handler put str gc ec (path # paths) s =
     (case model_update put str gc ec path s of
        (Some e, s1) \<Rightarrow> (Some e, s1)
      | (None, s1) \<Rightarrow> model_update_handler put str gc ec paths s1)"

subsection \<open>The receiving handlers\<close>

text \<open>
  An accepted connection: the peer's address and the chunks its \<open>recv\<close> calls return.
  After the last chunk the peer has closed and \<open>recv\<close> returns the empty bytes.
\<close>

type_synonym connection = "addr \<times> bytes list"

text \<open>The inner loop: \<open>recv\<close> until an empty chunk, appending to \<open>ultimate_buffer\<close>.\<close>

fun recv_all :: "bytes \<Rightarrow> bytes list \<Rightarrow> 'r selfplay \<Rightarrow> bytes \<times> 'r selfplay" where
  "recv_all ultimate_buffer [] s = (ultimate_buffer, log (Recv []) s)"
| "recv_all ultimate_buffer (receiving_buffer # rest) s =
     (if length receiving_buffer = 0 then (ultimate_buffer, log (Recv receiving_buffer) s)
      else recv_all (ultimate_buffer @ receiving_buffer) rest (log (Recv receiving_buffer) s))"

text \<open>
  One turn of the loop of \<open>rcv_remote_data_handler\<close>. \<open>loads\<close> is \<open>pickle.loads\<close>: the
  object or the exception it raises. There is no handler around it.
\<close>

definition rcv_remote_data ::
  "(bytes \<Rightarrow> exn + 'r pyobj) \<Rightarrow> connection \<Rightarrow> 'r selfplay \<Rightarrow> exn option \<times> 'r selfplay" where
  "rcv_remote_data loads conn s =
     (let client_address = fst conn;
          s1 = log (Accept client_address) (log Listen s);
          (ultimate_buffer, s2) = recv_all [] (snd conn) s1
      in case loads ultimate_buffer of
           Inl e \<Rightarrow> (Some e, s2)
         | Inr final_image \<Rightarrow>
             (let s3 = log (Close client_address) s2;
                  s4 = log (Queue_put final_image) (s3\<lparr> data_queue := data_queue s3 @ [final_image] \<rparr>);
                  s5 = s4\<lparr> remote_worker_reg := AList.update client_address True (remote_worker_reg s4) \<rparr>
              in (None, s5)))"

fun rcv_loop ::
  "(bytes \<Rightarrow> exn + 'r pyobj) \<Rightarrow> connection list \<Rightarrow> 'r selfplay \<Rightarrow> exn option \<times> 'r selfplay" where
  "rcv_loop loads [] s = (None, log Listen s)"
| "rcv_loop loads (conn # conns) s =
     (case rcv_remote_data loads conn s of
        (Some e, s1) \<Rightarrow> (Some e, s1)
      | (None, s1) \<Rightarrow> rcv_loop loads conns s1)"

text \<open>
  The handler on the connections that arrive. \<open>Some e\<close> is the thread ended by an
  exception; \<open>None\<close> is the thread that has served them all, has called \<open>listen\<close>
  again and waits in \<open>accept\<close>.
\<close>

definition rcv_remote_data_handler ::
  "(bytes \<Rightarrow> exn + 'r pyobj) \<Rightarrow> ext_config \<Rightarrow> connection list \<Rightarrow> 'r selfplay
     \<Rightarrow> exn option \<times> 'r selfplay" where
  "rcv_remote_data_handler loads ec conns s = rcv_loop loads conns (log (Bind (remote_port ec)) s)"

text \<open>One turn of the loop of \<open>remote_update_handler\<close>.\<close>

definition remote_update_turn ::
  "(bytes \<Rightarrow> exn + 'r pyobj) \<Rightarrow> connection \<Rightarrow> 'r selfplay \<Rightarrow> exn option \<times> 'r selfplay" where
  "remote_update_turn loads conn s =
     (let client_address = fst conn;
          s1 = log (Accept client_address) (log Listen s);
          (ultimate_buffer, s2) = recv_all [] (snd conn) s1
      in case loads ultimate_buffer of
           Inl e \<Rightarrow> (Some e, s2)
         | Inr final_image \<Rightarrow> (None, nn_load final_image (log (Close client_address) s2)))"

fun update_loop ::
  "(bytes \<Rightarrow> exn + 'r pyobj) \<Rightarrow> connection list \<Rightarrow> 'r selfplay \<Rightarrow> exn option \<times> 'r selfplay" where
  "update_loop loads [] s = (None, log Listen s)"
| "update_loop loads (conn # conns) s =
     (case remote_update_turn loads conn s of
        (Some e, s1) \<Rightarrow> (Some e, s1)
      | (None, s1) \<Rightarrow> update_loop loads conns s1)"

definition remote_update_handler ::
  "(bytes \<Rightarrow> exn + 'r pyobj) \<Rightarrow> ext_config \<Rightarrow> connection list \<Rightarrow> 'r selfplay
     \<Rightarrow> exn option \<times> 'r selfplay" where
  "remote_update_handler loads ec conns s =
     update_loop loads conns (log (Bind (remote_update_port ec)) s)"

subsection \<open>The component as a whole\<close>

text \<open>
  The launcher, the worker processes and the handler threads run side by side. An
  operation is one statement of the launcher, one whole worker unit, or one turn of a
  handler's loop; the turns of different threads are taken one after the other.
\<close>

datatype ('p, 'r) op =
    Launcher_acquire
  | Launcher_start
  | Unit_exit "exn + 'r pyobj" "exn option"
  | Rcv_data connection
  | Model_path 'p
  | Update_conn connection

record ('p, 'r) world =
  remote_put :: "addr \<Rightarrow> nat \<Rightarrow> 'r pyobj \<Rightarrow> put_result"
  py_str :: "'p \<Rightarrow> string"
  pickle_loads :: "bytes \<Rightarrow> exn + 'r pyobj"

text \<open>A turn of a handler thread; a thread that raises is gone.\<close>

definition thread_turn ::
  "handler \<Rightarrow> exn option \<times> 'r selfplay \<Rightarrow> 'r selfplay" where
  "thread_turn h r =
     (case fst r of
        None \<Rightarrow> snd r
      | Some e \<Rightarrow> (snd r)\<lparr> threads := removeAll h (threads (snd r)) \<rparr>)"

definition selfplay_step ::
  "('p, 'r) world \<Rightarrow> game_config \<Rightarrow> ext_config \<Rightarrow> ('p, 'r) op \<Rightarrow> 'r selfplay
     \<Rightarrow> 'r selfplay option" where
  "selfplay_step w gc ec operation s =
     (case operation of
        Launcher_acquire \<Rightarrow> launcher_acquire s
      | Launcher_start \<Rightarrow> launcher_start s
      | Unit_exit game put_exn \<Rightarrow> unit_exit game put_exn s
      | Rcv_data conn \<Rightarrow>
          if Rcv_remote_data_handler \<in> set (threads s)
          then Some (thread_turn Rcv_remote_data_handler (rcv_remote_data (pickle_loads w) conn s))
          else None
      | Model_path path \<Rightarrow>
          if Model_update_handler \<in> set (threads s)
          then Some (thread_turn Model_update_handler
                       (model_update (remote_put w) (py_str w) gc ec path s))
          else None
      | Update_conn conn \<Rightarrow>
          if Remote_update_handler \<in> set (threads s)
          then Some (thread_turn Remote_update_handler (remote_update_turn (pickle_loads w) conn s))
          else None)"

fun selfplay_steps ::
  "('p, 'r) world \<Rightarrow> game_config \<Rightarrow> ext_config \<Rightarrow> ('p, 'r) op list \<Rightarrow> 'r selfplay
     \<Rightarrow> 'r selfplay option" where
  "selfplay_steps w gc ec [] s = Some s"
| "selfplay_steps w gc ec (operation # ops) s =
     (case selfplay_step w gc ec operation s of
        None \<Rightarrow> None
      | Some s1 \<Rightarrow> selfplay_steps w gc ec ops s1)"

subsection \<open>Notions for stating the properties\<close>

text \<open>
  The bytes one connection delivers before its first empty chunk, and the \<open>recv\<close>
  calls the inner loop makes on it: one for each of these chunks and the one that
  returns the empty bytes.
\<close>

definition received_bytes :: "bytes list \<Rightarrow> bytes" where
  "received_bytes chunks = concat (takeWhile (\<lambda>c. length c \<noteq> 0) chunks)"

definition recv_events :: "bytes list \<Rightarrow> 'r event list" where
  "recv_events chunks = map Recv (takeWhile (\<lambda>c. length c \<noteq> 0) chunks) @ [Recv []]"

text \<open>A connection whose accumulated bytes \<open>pickle.loads\<close> accepts.\<close>

definition well_formed :: "(bytes \<Rightarrow> exn + 'r pyobj) \<Rightarrow> connection \<Rightarrow> bool" where
  "well_formed loads conn = (case loads (received_bytes (snd conn)) of Inl e \<Rightarrow> False | Inr obj \<Rightarrow> True)"

text \<open>
  The call of \<open>put\<close> for one item of the registry, as it shows in the trace, and
  whether an exception leaves it.
\<close>

definition send_event ::
  "(addr \<Rightarrow> nat \<Rightarrow> 'r pyobj \<Rightarrow> put_result) \<Rightarrow> nat \<Rightarrow> 'r pyobj \<Rightarrow> addr \<times> bool \<Rightarrow> 'r event" where
  "send_event put port frame item = Remote_put (fst item) port frame (put (fst item) port frame)"

definition put_raises ::
  "(addr \<Rightarrow> nat \<Rightarrow> 'r pyobj \<Rightarrow> put_result) \<Rightarrow> nat \<Rightarrow> 'r pyobj \<Rightarrow> addr \<times> bool \<Rightarrow> bool" where
  "put_raises put port frame item = (case put (fst item) port frame of Raises e \<Rightarrow> True | _ \<Rightarrow> False)"

text \<open>The events a step has added to the trace.\<close>

definition new_events :: "'r selfplay \<Rightarrow> 'r selfplay \<Rightarrow> 'r event list" where
  "new_events s s' = drop (length (trace s)) (trace s')"

text \<open>
  The items of the registry for which the broadcast calls \<open>put\<close>: all of them up to
  and including the first whose \<open>put\<close> raises; and that exception.
\<close>

fun attempted ::
  "(addr \<Rightarrow> nat \<Rightarrow> 'r pyobj \<Rightarrow> put_result) \<Rightarrow> nat \<Rightarrow> 'r pyobj \<Rightarrow> (addr \<times> bool) list
     \<Rightarrow> (addr \<times> bool) list" where
  "attempted put port frame [] = []"
| "attempted put port frame (item # items) =
     (if put_raises put port frame item then [item]
      else item # attempted put port frame items)"

fun first_exn ::
  "(addr \<Rightarrow> nat \<Rightarrow> 'r pyobj \<Rightarrow> put_result) \<Rightarrow> nat \<Rightarrow> 'r pyobj \<Rightarrow> (addr \<times> bool) list
     \<Rightarrow> exn option" where
  "first_exn put port frame [] = None"
| "first_exn put port frame (item # items) =
     (case put (fst item) port frame of
        Raises e \<Rightarrow> Some e
      | _ \<Rightarrow> first_exn put port frame items)"

text \<open>
  The events of one connection that a receiving loop serves in full: listen and accept,
  the \<open>recv\<close> calls up to the one that returns no bytes, the close of the connection
  and then the processing of the decoded frame.
\<close>

definition conn_block :: "connection \<Rightarrow> 'r event \<Rightarrow> 'r event list" where
  "conn_block conn processing =
     [Listen, Accept (fst conn)] @ recv_events (snd conn) @ [Close (fst conn), processing]"

text \<open>
  What holds of a remote deployment throughout: only the update listener can be alive,
  the registry is empty and no frame has been sent to a remote.
\<close>

definition remote_inv :: "'r selfplay \<Rightarrow> bool" where
  "remote_inv s =
     (Rcv_remote_data_handler \<notin> set (threads s)
      \<and> Model_update_handler \<notin> set (threads s)
      \<and> remote_worker_reg s = []
      \<and> list_all (\<lambda>ev. case ev of Remote_put a port frame r \<Rightarrow> False | _ \<Rightarrow> True) (trace s))"

subsection \<open>Concrete inputs\<close>

text \<open>
  A master with two worker slots, a deserializer that accepts the bytes starting with
  \<open>S\<close> as the string that follows, a network in which one address is unreachable,
  and a master that three remotes have delivered data to.
\<close>

definition example_ec :: ext_config where
  "example_ec = \<lparr> num_worker = 2, remote_port = 6000, remote_update_port = 6001, remote = None \<rparr>"

definition example_gc :: game_config where
  "example_gc = \<lparr> name = ''mnk'' \<rparr>"

definition example_loads :: "bytes \<Rightarrow> exn + unit pyobj" where
  "example_loads b =
     (case b of
        CHR ''S'' # rest \<Rightarrow> Inr (Str rest)
      | _ \<Rightarrow> Inl (Exn ''UnpicklingError''))"

definition example_reachable :: "addr \<Rightarrow> bool" where
  "example_reachable a = (a \<noteq> ''10.0.0.3'')"

definition example_master :: "unit selfplay" where
  "example_master =
     (Selfplay_init example_ec)
       \<lparr> remote_worker_reg := [(''10.0.0.2'', True), (''10.0.0.3'', True), (''10.0.0.4'', True)] \<rparr>"

definition example_remote :: "unit selfplay" where
  "example_remote = Selfplay_init (example_ec\<lparr> remote := Some True \<rparr>)"

definition example_world :: "(string, unit) world" where
  "example_world =
     \<lparr> remote_put = Remote_Queue_put example_reachable, py_str = (\<lambda>p. p),
       pickle_loads = example_loads \<rparr>"

section \<open>Properties of the game state\<close>

declare count_run.simps [simp del]

lemma board_get_error: "board_get b x y = Inl e \<Longrightarrow> e = IndexError"
  by (auto simp: board_get_def split: if_splits)

lemma count_run_error: "count_run s d p c = Inl e \<Longrightarrow> e = IndexError"
proof (induction s d p c rule: count_run.induct)
  case (1 s d xp yp c)
  from "1.prems" have on: "on_board s (xp, yp)"
    by (subst (asm) count_run.simps) (auto split: if_splits)
  show ?case
  proof (cases "board_get (board s) xp yp")
    case (Inl e')
    with on "1.prems" have "e = e'"
      by (subst (asm) count_run.simps) simp
    with Inl show ?thesis by (simp add: board_get_error)
  next
    case (Inr v)
    with on "1.prems" have v: "v = current_player s"
      by (subst (asm) count_run.simps) (auto split: if_splits)
    with on Inr "1.prems"
    have "count_run s d (xp + fst (delta d), yp + snd (delta d)) (c + 1) = Inl e"
      by (subst (asm) count_run.simps) simp
    with "1.IH" [OF on Inr v] show ?thesis .
  qed
qed

lemma count_line_error: "count_line s d1 p1 d2 p2 = Inl e \<Longrightarrow> e = IndexError"
  by (auto simp: count_line_def split: sum.splits dest: count_run_error)

lemma do_move_legal_error: "fst (do_move_legal s a c) = Inl e \<Longrightarrow> e = IndexError"
  by (auto simp: do_move_legal_def Let_def split: sum.splits dest: count_line_error)

lemma is_legal_error: "is_legal s a = Inl e \<Longrightarrow> e = IndexError"
  by (cases a) (auto split: if_splits sum.splits dest: board_get_error)

text \<open>
  Claim C10. For every game state and every action, \<open>do_move\<close> without a colour raises
  \<open>IllegalMove\<close> exactly when \<open>is_legal\<close> is false, that is when the action is off the
  board or its cell is not empty; and when it raises, the message is the action and
  every attribute of the state has the value it had before the call.
\<close>

theorem do_move_illegal_iff:
  "((\<exists>m. fst (do_move s a None) = Inl (IllegalMove m)) \<longleftrightarrow> is_legal s a = Inr False)
   \<and> (is_legal s a = Inr False \<longleftrightarrow>
        (\<not> on_board s a \<or> (\<exists>v. board_get (board s) (fst a) (snd a) = Inr v \<and> v \<noteq> EMPTY)))
   \<and> ((\<exists>m. fst (do_move s a None) = Inl (IllegalMove m)) \<longrightarrow>
        do_move s a None = (Inl (IllegalMove a), s))"
proof -
  have s1: "s\<lparr>current_player := current_player s\<rparr> = s" by simp
  have A: "(\<exists>m. fst (do_move s a None) = Inl (IllegalMove m)) \<longleftrightarrow> is_legal s a = Inr False"
  proof (cases "is_legal s a")
    case (Inl e)
    then have "e = IndexError" by (rule is_legal_error)
    with Inl show ?thesis by (simp add: do_move_def s1)
  next
    case (Inr b)
    show ?thesis
    proof (cases b)
      case True
      with Inr have "do_move s a None = do_move_legal s a (current_player s)"
        by (simp add: do_move_def s1)
      with Inr True show ?thesis
        by (auto dest: do_move_legal_error)
    next
      case False
      with Inr show ?thesis by (simp add: do_move_def s1)
    qed
  qed
  have B: "is_legal s a = Inr False \<longleftrightarrow>
        (\<not> on_board s a \<or> (\<exists>v. board_get (board s) (fst a) (snd a) = Inr v \<and> v \<noteq> EMPTY))"
    by (cases a) (auto split: sum.splits)
  have C: "is_legal s a = Inr False \<Longrightarrow> do_move s a None = (Inl (IllegalMove a), s)"
    by (simp add: do_move_def s1)
  from A B C show ?thesis by blast
qed

theorem do_move_illegal_iff_witness:
  "is_legal (snd (do_move (GameState_init 3 3 3 2) (1, 1) None)) (1, 1) = Inr False
   \<and> do_move (snd (do_move (GameState_init 3 3 3 2) (1, 1) None)) (1, 1) None
       = (Inl (IllegalMove (1, 1)), snd (do_move (GameState_init 3 3 3 2) (1, 1) None))"
proof -
  have h: "is_legal (snd (do_move (GameState_init 3 3 3 2) (1, 1) None)) (1, 1) = Inr False"
    by code_simp
  from h do_move_illegal_iff
         [of "snd (do_move (GameState_init 3 3 3 2) (1, 1) None)" "(1, 1)"]
  show ?thesis by blast
qed

section \<open>Properties of the handlers\<close>

lemma recv_all_eq:
  "recv_all buf chunks s = (buf @ received_bytes chunks, s\<lparr> trace := trace s @ recv_events chunks \<rparr>)"
  by (induction chunks arbitrary: buf s) (simp_all add: received_bytes_def recv_events_def log_def)

lemma rcv_remote_data_ok:
  assumes "loads (received_bytes (snd conn)) = Inr img"
  shows "rcv_remote_data loads conn s =
    (None, s\<lparr> remote_worker_reg := AList.update (fst conn) True (remote_worker_reg s),
              data_queue := data_queue s @ [img],
              trace := trace s @ [Listen, Accept (fst conn)] @ recv_events (snd conn)
                        @ [Close (fst conn), Queue_put img] \<rparr>)"
  using assms by (simp add: rcv_remote_data_def recv_all_eq log_def Let_def)

lemma rcv_remote_data_fail:
  assumes "loads (received_bytes (snd conn)) = Inl e"
  shows "rcv_remote_data loads conn s =
    (Some e, s\<lparr> trace := trace s @ [Listen, Accept (fst conn)] @ recv_events (snd conn) \<rparr>)"
  using assms by (simp add: rcv_remote_data_def recv_all_eq log_def Let_def)

lemma remote_update_turn_ok:
  assumes "loads (received_bytes (snd conn)) = Inr img"
  shows "remote_update_turn loads conn s =
    (None, s\<lparr> loaded := Some img,
              trace := trace s @ [Listen, Accept (fst conn)] @ recv_events (snd conn)
                        @ [Close (fst conn), Load img] \<rparr>)"
  using assms by (simp add: remote_update_turn_def recv_all_eq log_def nn_load_def Let_def)

lemma remote_update_turn_fail:
  assumes "loads (received_bytes (snd conn)) = Inl e"
  shows "remote_update_turn loads conn s =
    (Some e, s\<lparr> trace := trace s @ [Listen, Accept (fst conn)] @ recv_events (snd conn) \<rparr>)"
  using assms by (simp add: remote_update_turn_def recv_all_eq log_def Let_def)

lemma notify_remotes_eq:
  "notify_remotes put port frame items s =
     (first_exn put port frame items,
      s\<lparr> trace := trace s @ map (send_event put port frame) (attempted put port frame items) \<rparr>)"
proof (induction items arbitrary: s)
  case Nil
  then show ?case by simp
next
  case (Cons item items)
  obtain a b where item: "item = (a, b)" by (cases item)
  show ?case
  proof (cases "put a port frame")
    case (Raises e)
    then show ?thesis by (simp add: item put_raises_def send_event_def log_def)
  next
    case Delivered
    then show ?thesis
      by (simp add: item put_raises_def send_event_def log_def Cons.IH)
  next
    case Reported
    then show ?thesis
      by (simp add: item put_raises_def send_event_def log_def Cons.IH)
  qed
qed

lemma first_exn_None_iff:
  "first_exn put port frame items = None \<longleftrightarrow> (\<forall>item \<in> set items. \<not> put_raises put port frame item)"
  by (induction items) (auto simp: put_raises_def split: put_result.splits)

lemma attempted_all:
  "first_exn put port frame items = None \<Longrightarrow> attempted put port frame items = items"
  by (induction items) (auto simp: put_raises_def split: put_result.splits)

lemma model_update_eq:
  "model_update put str gc ec path s =
     (first_exn put (remote_update_port ec) (Str (''./'' @ name gc @ ''_model/ckpt-'' @ str path))
        (remote_worker_reg s),
      if first_exn put (remote_update_port ec) (Str (''./'' @ name gc @ ''_model/ckpt-'' @ str path))
           (remote_worker_reg s) = None
      then s\<lparr> loaded := Some (Str (''./'' @ name gc @ ''_model/ckpt-'' @ str path)),
               trace := trace s
                 @ map (send_event put (remote_update_port ec)
                          (Str (''./'' @ name gc @ ''_model/ckpt-'' @ str path)))
                     (remote_worker_reg s)
                 @ [Load (Str (''./'' @ name gc @ ''_model/ckpt-'' @ str path))] \<rparr>
      else s\<lparr> trace := trace s
                 @ map (send_event put (remote_update_port ec)
                          (Str (''./'' @ name gc @ ''_model/ckpt-'' @ str path)))
                     (attempted put (remote_update_port ec)
                        (Str (''./'' @ name gc @ ''_model/ckpt-'' @ str path)) (remote_worker_reg s)) \<rparr>)"
  by (cases "first_exn put (remote_update_port ec) (Str (''./'' @ name gc @ ''_model/ckpt-'' @ str path))
        (remote_worker_reg s)")
     (simp_all add: model_update_def notify_remotes_eq nn_load_def log_def attempted_all)

section \<open>Properties of the self-play unit\<close>

text \<open>
  Claim C1, as amended. A unit that returns normally has put its record on the queue
  and released the read lock and the semaphore unit once each, in this order. A unit in
  which playing the game or putting the record raises ends there: it has acquired the
  read lock and released neither the lock nor the semaphore unit.
\<close>

theorem selfplay_wrapper_exits:
  "(game = Inr data \<and> put_exn = None \<longrightarrow>
      selfplay_wrapper game put_exn s =
        (None, s\<lparr> data_queue := data_queue s @ [data],
                  worker_lim := worker_lim s + 1,
                  trace := trace s @ [R_acquire, Queue_put data, R_release, Sem_release] \<rparr>))
   \<and> (game = Inl e \<or> (game = Inr data \<and> put_exn = Some e) \<longrightarrow>
      selfplay_wrapper game put_exn s =
        (Some e, s\<lparr> readers := readers s + 1, trace := trace s @ [R_acquire] \<rparr>))"
  by (auto simp: selfplay_wrapper_def log_def Let_def)

theorem selfplay_wrapper_exits_witness:
  "selfplay_wrapper (Inr (Str ''g'')) None (Selfplay_init example_ec :: unit selfplay) =
     (None, (Selfplay_init example_ec)\<lparr> data_queue := [Str ''g''], worker_lim := 3,
               trace := [R_acquire, Queue_put (Str ''g''), R_release, Sem_release] \<rparr>)
   \<and> selfplay_wrapper (Inl (Exn ''IllegalMove'')) None (Selfplay_init example_ec :: unit selfplay) =
     (Some (Exn ''IllegalMove''), (Selfplay_init example_ec)\<lparr> readers := 1, trace := [R_acquire] \<rparr>)"
  using selfplay_wrapper_exits [of "Inr (Str ''g'')" "Str ''g''" None "Selfplay_init example_ec :: unit selfplay" "Exn ''x''"]
        selfplay_wrapper_exits [of "Inl (Exn ''IllegalMove'')" "Str ''g''" None "Selfplay_init example_ec :: unit selfplay" "Exn ''IllegalMove''"]
  by (simp add: Selfplay_init_def example_ec_def)

text \<open>
  Claim C1 as stated fails: a unit whose game raises exits with no release in its trace,
  the read lock still held and the semaphore at the value the launcher left.
\<close>

theorem selfplay_wrapper_leak_counterexample:
  "fst (selfplay_wrapper (Inl (Exn ''IllegalMove'')) None (Selfplay_init example_ec :: unit selfplay))
     = Some (Exn ''IllegalMove'')
   \<and> count_list (trace (snd (selfplay_wrapper (Inl (Exn ''IllegalMove'')) None
         (Selfplay_init example_ec :: unit selfplay)))) R_release = 0
   \<and> count_list (trace (snd (selfplay_wrapper (Inl (Exn ''IllegalMove'')) None
         (Selfplay_init example_ec :: unit selfplay)))) Sem_release = 0
   \<and> readers (snd (selfplay_wrapper (Inl (Exn ''IllegalMove'')) None
         (Selfplay_init example_ec :: unit selfplay))) = 1
   \<and> worker_lim (snd (selfplay_wrapper (Inl (Exn ''IllegalMove'')) None
         (Selfplay_init example_ec :: unit selfplay))) = 2"
  by (simp add: selfplay_wrapper_def log_def Selfplay_init_def example_ec_def)

section \<open>Properties of the receiving handlers\<close>

lemma well_formed_iff: "well_formed loads conn \<longleftrightarrow> (\<exists>img. loads (received_bytes (snd conn)) = Inr img)"
  by (cases "loads (received_bytes (snd conn))") (simp_all add: well_formed_def)

lemma rcv_loop_well_formed:
  "list_all (well_formed loads) conns \<Longrightarrow> fst (rcv_loop loads conns s) = None"
proof (induction conns arbitrary: s)
  case Nil
  then show ?case by simp
next
  case (Cons conn conns)
  from Cons.prems obtain img where img: "loads (received_bytes (snd conn)) = Inr img"
    by (auto simp: well_formed_iff)
  from Cons.prems have "list_all (well_formed loads) conns" by simp
  with img show ?case
    by (simp add: rcv_remote_data_ok [of loads conn img] Cons.IH)
qed

lemma update_loop_well_formed:
  "list_all (well_formed loads) conns \<Longrightarrow> fst (update_loop loads conns s) = None"
proof (induction conns arbitrary: s)
  case Nil
  then show ?case by simp
next
  case (Cons conn conns)
  from Cons.prems obtain img where img: "loads (received_bytes (snd conn)) = Inr img"
    by (auto simp: well_formed_iff)
  from Cons.prems have "list_all (well_formed loads) conns" by simp
  with img show ?case
    by (simp add: remote_update_turn_ok [of loads conn img] Cons.IH)
qed

text \<open>
  After connections that deserialize the loop has called \<open>listen\<close> and waits in
  \<open>accept\<close>; the next connection is served from that state.
\<close>

lemma rcv_loop_then_ok:
  "list_all (well_formed loads) pre \<Longrightarrow> loads (received_bytes (snd conn)) = Inr img \<Longrightarrow>
   rcv_loop loads (pre @ conn # post) s =
     rcv_loop loads post
       ((snd (rcv_loop loads pre s))
          \<lparr> remote_worker_reg :=
              AList.update (fst conn) True (remote_worker_reg (snd (rcv_loop loads pre s))),
            data_queue := data_queue (snd (rcv_loop loads pre s)) @ [img],
            trace := trace (snd (rcv_loop loads pre s)) @ [Accept (fst conn)]
                       @ recv_events (snd conn) @ [Close (fst conn), Queue_put img] \<rparr>)"
proof (induction pre arbitrary: s)
  case Nil
  then show ?case
    by (simp add: rcv_remote_data_ok [of loads conn img] log_def)
next
  case (Cons c pre)
  from Cons.prems obtain i where i: "loads (received_bytes (snd c)) = Inr i"
    by (auto simp: well_formed_iff)
  from Cons.prems have pre: "list_all (well_formed loads) pre" by simp
  from i show ?case
    by (simp add: rcv_remote_data_ok [of loads c i] Cons.IH [OF pre Cons.prems(2)])
qed

lemma rcv_loop_then_fail:
  "list_all (well_formed loads) pre \<Longrightarrow> loads (received_bytes (snd conn)) = Inl e \<Longrightarrow>
   rcv_loop loads (pre @ conn # post) s =
     (Some e,
      (snd (rcv_loop loads pre s))
        \<lparr> trace := trace (snd (rcv_loop loads pre s)) @ [Accept (fst conn)]
                     @ recv_events (snd conn) \<rparr>)"
proof (induction pre arbitrary: s)
  case Nil
  then show ?case
    by (simp add: rcv_remote_data_fail [of loads conn e] log_def)
next
  case (Cons c pre)
  from Cons.prems obtain i where i: "loads (received_bytes (snd c)) = Inr i"
    by (auto simp: well_formed_iff)
  from Cons.prems have pre: "list_all (well_formed loads) pre" by simp
  from i show ?case
    by (simp add: rcv_remote_data_ok [of loads c i] Cons.IH [OF pre Cons.prems(2)])
qed

lemma update_loop_then_fail:
  "list_all (well_formed loads) pre \<Longrightarrow> loads (received_bytes (snd conn)) = Inl e \<Longrightarrow>
   update_loop loads (pre @ conn # post) s =
     (Some e,
      (snd (update_loop loads pre s))
        \<lparr> trace := trace (snd (update_loop loads pre s)) @ [Accept (fst conn)]
                     @ recv_events (snd conn) \<rparr>)"
proof (induction pre arbitrary: s)
  case Nil
  then show ?case
    by (simp add: remote_update_turn_fail [of loads conn e] log_def)
next
  case (Cons c pre)
  from Cons.prems obtain i where i: "loads (received_bytes (snd c)) = Inr i"
    by (auto simp: well_formed_iff)
  from Cons.prems have pre: "list_all (well_formed loads) pre" by simp
  from i show ?case
    by (simp add: remote_update_turn_ok [of loads c i] Cons.IH [OF pre Cons.prems(2)])
qed

lemma rcv_loop_run:
  "\<forall>ci \<in> set cis. loads (received_bytes (snd (fst ci))) = Inr (snd ci) \<Longrightarrow>
   rcv_loop loads (map fst cis) s =
     (None,
      s\<lparr> remote_worker_reg := fold (\<lambda>ci. AList.update (fst (fst ci)) True) cis (remote_worker_reg s),
         data_queue := data_queue s @ map snd cis,
         trace := trace s @ concat (map (\<lambda>ci. conn_block (fst ci) (Queue_put (snd ci))) cis)
                    @ [Listen] \<rparr>)"
proof (induction cis arbitrary: s)
  case Nil
  then show ?case by (simp add: log_def)
next
  case (Cons ci cis)
  from Cons.prems have ok: "loads (received_bytes (snd (fst ci))) = Inr (snd ci)" by simp
  from Cons.prems have rest: "\<forall>ci \<in> set cis. loads (received_bytes (snd (fst ci))) = Inr (snd ci)"
    by simp
  from ok show ?case
    by (simp add: rcv_remote_data_ok [of loads "fst ci" "snd ci"] Cons.IH [OF rest] conn_block_def)
qed

lemma update_loop_run:
  "\<forall>ci \<in> set cis. loads (received_bytes (snd (fst ci))) = Inr (snd ci) \<Longrightarrow>
   update_loop loads (map fst cis) s =
     (None,
      s\<lparr> loaded := (if cis = [] then loaded s else Some (snd (last cis))),
         trace := trace s @ concat (map (\<lambda>ci. conn_block (fst ci) (Load (snd ci))) cis)
                    @ [Listen] \<rparr>)"
proof (induction cis arbitrary: s)
  case Nil
  then show ?case by (simp add: log_def)
next
  case (Cons ci cis)
  from Cons.prems have ok: "loads (received_bytes (snd (fst ci))) = Inr (snd ci)" by simp
  from Cons.prems have rest: "\<forall>ci \<in> set cis. loads (received_bytes (snd (fst ci))) = Inr (snd ci)"
    by simp
  from ok show ?case
    by (simp add: remote_update_turn_ok [of loads "fst ci" "snd ci"] Cons.IH [OF rest] conn_block_def)
qed

lemma served_well_formed:
  "\<forall>ci \<in> set cis. loads (received_bytes (snd (fst ci))) = Inr (snd ci) \<Longrightarrow>
   list_all (well_formed loads) (map fst cis)"
  by (induction cis) (auto simp: well_formed_iff)


text \<open>
  Claim C2, as amended. A connection whose bytes deserialize has its frame put on the
  queue and its address registered, and the loop goes on to the next connection; while
  all connections are such, the handler ends up waiting for the next one. At the first
  connection whose bytes fail to deserialize the exception of \<open>pickle.loads\<close> leaves
  the loop, which has no handler: the handler ends with that exception, the frame is
  neither put on the queue nor its address registered, and no later connection is
  accepted.
\<close>

theorem rcv_handler_malformed_ends:
  "(loads (received_bytes (snd conn)) = Inr img \<longrightarrow>
      rcv_remote_data loads conn s0 =
        (None, s0\<lparr> remote_worker_reg := AList.update (fst conn) True (remote_worker_reg s0),
                   data_queue := data_queue s0 @ [img],
                   trace := trace s0 @ [Listen, Accept (fst conn)] @ recv_events (snd conn)
                              @ [Close (fst conn), Queue_put img] \<rparr>))
   \<and> (list_all (well_formed loads) pre \<and> loads (received_bytes (snd conn)) = Inr img \<longrightarrow>
      rcv_remote_data_handler loads ec (pre @ conn # post) s =
        rcv_loop loads post
          ((snd (rcv_remote_data_handler loads ec pre s))
             \<lparr> remote_worker_reg :=
                 AList.update (fst conn) True
                   (remote_worker_reg (snd (rcv_remote_data_handler loads ec pre s))),
               data_queue := data_queue (snd (rcv_remote_data_handler loads ec pre s)) @ [img],
               trace := trace (snd (rcv_remote_data_handler loads ec pre s)) @ [Accept (fst conn)]
                          @ recv_events (snd conn) @ [Close (fst conn), Queue_put img] \<rparr>))
   \<and> (list_all (well_formed loads) conns \<longrightarrow>
      fst (rcv_remote_data_handler loads ec conns s) = None)
   \<and> (list_all (well_formed loads) pre \<and> loads (received_bytes (snd conn)) = Inl e \<longrightarrow>
      rcv_remote_data_handler loads ec (pre @ conn # post) s =
        (Some e,
         (snd (rcv_remote_data_handler loads ec pre s))
           \<lparr> trace := trace (snd (rcv_remote_data_handler loads ec pre s))
                @ [Accept (fst conn)] @ recv_events (snd conn) \<rparr>))"
proof -
  have A: "rcv_remote_data loads conn s0 =
        (None, s0\<lparr> remote_worker_reg := AList.update (fst conn) True (remote_worker_reg s0),
                   data_queue := data_queue s0 @ [img],
                   trace := trace s0 @ [Listen, Accept (fst conn)] @ recv_events (snd conn)
                              @ [Close (fst conn), Queue_put img] \<rparr>)"
    if "loads (received_bytes (snd conn)) = Inr img"
    using that by (rule rcv_remote_data_ok)
  have B: "rcv_remote_data_handler loads ec (pre @ conn # post) s =
        rcv_loop loads post
          ((snd (rcv_remote_data_handler loads ec pre s))
             \<lparr> remote_worker_reg :=
                 AList.update (fst conn) True
                   (remote_worker_reg (snd (rcv_remote_data_handler loads ec pre s))),
               data_queue := data_queue (snd (rcv_remote_data_handler loads ec pre s)) @ [img],
               trace := trace (snd (rcv_remote_data_handler loads ec pre s)) @ [Accept (fst conn)]
                          @ recv_events (snd conn) @ [Close (fst conn), Queue_put img] \<rparr>)"
    if "list_all (well_formed loads) pre \<and> loads (received_bytes (snd conn)) = Inr img"
    using that
    by (simp add: rcv_remote_data_handler_def rcv_loop_then_ok [of loads pre conn img])
  have C: "fst (rcv_remote_data_handler loads ec conns s) = None"
    if "list_all (well_formed loads) conns"
    using that by (simp add: rcv_remote_data_handler_def rcv_loop_well_formed)
  have D: "rcv_remote_data_handler loads ec (pre @ conn # post) s =
        (Some e,
         (snd (rcv_remote_data_handler loads ec pre s))
           \<lparr> trace := trace (snd (rcv_remote_data_handler loads ec pre s))
                @ [Accept (fst conn)] @ recv_events (snd conn) \<rparr>)"
    if "list_all (well_formed loads) pre \<and> loads (received_bytes (snd conn)) = Inl e"
    using that
    by (simp add: rcv_remote_data_handler_def rcv_loop_then_fail [of loads pre conn e])
  from A B C D show ?thesis by blast
qed

theorem rcv_handler_malformed_ends_witness:
  "rcv_remote_data example_loads (''10.0.0.2'', [''Sa'', ''bc'']) (Selfplay_init example_ec) =
     (None,
      (Selfplay_init example_ec)
        \<lparr> remote_worker_reg := [(''10.0.0.2'', True)],
          data_queue := [Str ''abc''],
          trace := [Listen, Accept ''10.0.0.2'', Recv ''Sa'', Recv ''bc'', Recv [],
                    Close ''10.0.0.2'', Queue_put (Str ''abc'')] \<rparr>)
   \<and> rcv_remote_data_handler example_loads example_ec
      ([(''10.0.0.2'', [''Sa'', ''bc''])] @ (''10.0.0.3'', [''garbage'']) # [(''10.0.0.4'', [''Sd''])])
      (Selfplay_init example_ec) =
     (Some (Exn ''UnpicklingError''),
      (Selfplay_init example_ec)
        \<lparr> remote_worker_reg := [(''10.0.0.2'', True)],
          data_queue := [Str ''abc''],
          trace := [Bind 6000, Listen, Accept ''10.0.0.2'', Recv ''Sa'', Recv ''bc'', Recv [],
                    Close ''10.0.0.2'', Queue_put (Str ''abc''),
                    Listen, Accept ''10.0.0.3'', Recv ''garbage'', Recv []] \<rparr>)"
proof -
  have ok: "example_loads (received_bytes (snd (''10.0.0.2'', [''Sa'', ''bc'']))) = Inr (Str ''abc'')"
    by (simp add: received_bytes_def example_loads_def)
  have wf: "list_all (well_formed example_loads) [(''10.0.0.2'', [''Sa'', ''bc''])]"
    by (simp add: well_formed_def received_bytes_def example_loads_def)
  have bad: "example_loads (received_bytes (snd (''10.0.0.3'', [''garbage''])))
               = Inl (Exn ''UnpicklingError'')"
    by (simp add: received_bytes_def example_loads_def)
  have pre: "rcv_remote_data_handler example_loads example_ec [(''10.0.0.2'', [''Sa'', ''bc''])]
               (Selfplay_init example_ec) =
     (None, (Selfplay_init example_ec)
        \<lparr> remote_worker_reg := [(''10.0.0.2'', True)],
          data_queue := [Str ''abc''],
          trace := [Bind 6000, Listen, Accept ''10.0.0.2'', Recv ''Sa'', Recv ''bc'', Recv [],
                    Close ''10.0.0.2'', Queue_put (Str ''abc''), Listen] \<rparr>)"
    by (simp add: rcv_remote_data_handler_def rcv_remote_data_def log_def Let_def
          Selfplay_init_def example_ec_def example_loads_def)
  from ok rcv_handler_malformed_ends
         [of example_loads "(''10.0.0.2'', [''Sa'', ''bc''])" "Str ''abc''" "Selfplay_init example_ec"]
  have 1: "rcv_remote_data example_loads (''10.0.0.2'', [''Sa'', ''bc'']) (Selfplay_init example_ec) =
        (None, (Selfplay_init example_ec)
           \<lparr> remote_worker_reg := AList.update (fst (''10.0.0.2'', [''Sa'', ''bc''])) True
                 (remote_worker_reg (Selfplay_init example_ec :: unit selfplay)),
             data_queue := data_queue (Selfplay_init example_ec :: unit selfplay) @ [Str ''abc''],
             trace := trace (Selfplay_init example_ec :: unit selfplay)
                        @ [Listen, Accept (fst (''10.0.0.2'', [''Sa'', ''bc'']))]
                        @ recv_events (snd (''10.0.0.2'', [''Sa'', ''bc'']))
                        @ [Close (fst (''10.0.0.2'', [''Sa'', ''bc''])), Queue_put (Str ''abc'')] \<rparr>)"
    by blast
  from wf bad rcv_handler_malformed_ends
         [of example_loads "(''10.0.0.3'', [''garbage''])" _ _ "[(''10.0.0.2'', [''Sa'', ''bc''])]"
             example_ec "[(''10.0.0.4'', [''Sd''])]" "Selfplay_init example_ec" _
             "Exn ''UnpicklingError''"]
  have 2: "rcv_remote_data_handler example_loads example_ec
      ([(''10.0.0.2'', [''Sa'', ''bc''])] @ (''10.0.0.3'', [''garbage'']) # [(''10.0.0.4'', [''Sd''])])
      (Selfplay_init example_ec) =
        (Some (Exn ''UnpicklingError''),
         (snd (rcv_remote_data_handler example_loads example_ec [(''10.0.0.2'', [''Sa'', ''bc''])]
                 (Selfplay_init example_ec)))
           \<lparr> trace := trace (snd (rcv_remote_data_handler example_loads example_ec
                                     [(''10.0.0.2'', [''Sa'', ''bc''])] (Selfplay_init example_ec)))
                @ [Accept (fst (''10.0.0.3'', [''garbage'']))]
                @ recv_events (snd (''10.0.0.3'', [''garbage''])) \<rparr>)"
    by blast
  show ?thesis
    unfolding 1 2 pre
    by (simp add: recv_events_def Selfplay_init_def)
qed

text \<open>
  Claim C2 as stated fails: after a malformed frame the handler has ended with the
  exception, and the well-formed connection that follows is never accepted.
\<close>

theorem rcv_handler_stops_counterexample:
  "fst (rcv_remote_data_handler example_loads example_ec
          [(''10.0.0.3'', [''garbage'']), (''10.0.0.4'', [''Sd''])] (Selfplay_init example_ec))
     = Some (Exn ''UnpicklingError'')
   \<and> trace (snd (rcv_remote_data_handler example_loads example_ec
          [(''10.0.0.3'', [''garbage'']), (''10.0.0.4'', [''Sd''])] (Selfplay_init example_ec)))
     = [Bind 6000, Listen, Accept ''10.0.0.3'', Recv ''garbage'', Recv []]
   \<and> data_queue (snd (rcv_remote_data_handler example_loads example_ec
          [(''10.0.0.3'', [''garbage'']), (''10.0.0.4'', [''Sd''])] (Selfplay_init example_ec)))
     = []"
  by (simp add: rcv_remote_data_handler_def rcv_remote_data_def log_def Let_def
          Selfplay_init_def example_ec_def example_loads_def)


text \<open>
  Claim C6, as amended. When the bytes of every arriving connection deserialize, each
  receiving handler serves the connections one after the other, one frame for each:
  listen and accept, \<open>recv\<close> until no bytes come, the accumulated bytes deserialized
  as one object, the connection closed and then the object processed (put on the data
  queue with the sender registered, or loaded), all before the next accept; after the
  last one the handler has called \<open>listen\<close> and waits. A connection whose bytes fail to
  deserialize is read to its end and then neither closed nor processed: the handler
  ends there with the exception and accepts no further connection.
\<close>

theorem receiving_handlers_serve_in_turn:
  "((\<forall>ci \<in> set cis. loads (received_bytes (snd (fst ci))) = Inr (snd ci)) \<longrightarrow>
      rcv_remote_data_handler loads ec (map fst cis) s =
        (None,
         s\<lparr> remote_worker_reg :=
              fold (\<lambda>ci. AList.update (fst (fst ci)) True) cis (remote_worker_reg s),
            data_queue := data_queue s @ map snd cis,
            trace := trace s @ [Bind (remote_port ec)]
                       @ concat (map (\<lambda>ci. conn_block (fst ci) (Queue_put (snd ci))) cis)
                       @ [Listen] \<rparr>)
    \<and> remote_update_handler loads ec (map fst cis) s =
        (None,
         s\<lparr> loaded := (if cis = [] then loaded s else Some (snd (last cis))),
            trace := trace s @ [Bind (remote_update_port ec)]
                       @ concat (map (\<lambda>ci. conn_block (fst ci) (Load (snd ci))) cis)
                       @ [Listen] \<rparr>))
   \<and> ((\<forall>ci \<in> set cis. loads (received_bytes (snd (fst ci))) = Inr (snd ci))
        \<and> loads (received_bytes (snd conn)) = Inl e \<longrightarrow>
      rcv_remote_data_handler loads ec (map fst cis @ conn # post) s =
        (Some e,
         (snd (rcv_remote_data_handler loads ec (map fst cis) s))
           \<lparr> trace := trace (snd (rcv_remote_data_handler loads ec (map fst cis) s))
                @ [Accept (fst conn)] @ recv_events (snd conn) \<rparr>)
    \<and> remote_update_handler loads ec (map fst cis @ conn # post) s =
        (Some e,
         (snd (remote_update_handler loads ec (map fst cis) s))
           \<lparr> trace := trace (snd (remote_update_handler loads ec (map fst cis) s))
                @ [Accept (fst conn)] @ recv_events (snd conn) \<rparr>))"
proof -
  have A: "rcv_remote_data_handler loads ec (map fst cis) s =
        (None,
         s\<lparr> remote_worker_reg :=
              fold (\<lambda>ci. AList.update (fst (fst ci)) True) cis (remote_worker_reg s),
            data_queue := data_queue s @ map snd cis,
            trace := trace s @ [Bind (remote_port ec)]
                       @ concat (map (\<lambda>ci. conn_block (fst ci) (Queue_put (snd ci))) cis)
                       @ [Listen] \<rparr>)"
    if ok: "\<forall>ci \<in> set cis. loads (received_bytes (snd (fst ci))) = Inr (snd ci)"
    by (simp add: rcv_remote_data_handler_def rcv_loop_run [OF ok] log_def)
  have B: "remote_update_handler loads ec (map fst cis) s =
        (None,
         s\<lparr> loaded := (if cis = [] then loaded s else Some (snd (last cis))),
            trace := trace s @ [Bind (remote_update_port ec)]
                       @ concat (map (\<lambda>ci. conn_block (fst ci) (Load (snd ci))) cis)
                       @ [Listen] \<rparr>)"
    if ok: "\<forall>ci \<in> set cis. loads (received_bytes (snd (fst ci))) = Inr (snd ci)"
    by (simp add: remote_update_handler_def update_loop_run [OF ok] log_def)
  have C: "rcv_remote_data_handler loads ec (map fst cis @ conn # post) s =
        (Some e,
         (snd (rcv_remote_data_handler loads ec (map fst cis) s))
           \<lparr> trace := trace (snd (rcv_remote_data_handler loads ec (map fst cis) s))
                @ [Accept (fst conn)] @ recv_events (snd conn) \<rparr>)"
    if ok: "\<forall>ci \<in> set cis. loads (received_bytes (snd (fst ci))) = Inr (snd ci)"
      and bad: "loads (received_bytes (snd conn)) = Inl e"
    using rcv_loop_then_fail [of loads "map fst cis" conn e post, OF served_well_formed [OF ok] bad]
    by (simp add: rcv_remote_data_handler_def)
  have D: "remote_update_handler loads ec (map fst cis @ conn # post) s =
        (Some e,
         (snd (remote_update_handler loads ec (map fst cis) s))
           \<lparr> trace := trace (snd (remote_update_handler loads ec (map fst cis) s))
                @ [Accept (fst conn)] @ recv_events (snd conn) \<rparr>)"
    if ok: "\<forall>ci \<in> set cis. loads (received_bytes (snd (fst ci))) = Inr (snd ci)"
      and bad: "loads (received_bytes (snd conn)) = Inl e"
    using update_loop_then_fail [of loads "map fst cis" conn e post, OF served_well_formed [OF ok] bad]
    by (simp add: remote_update_handler_def)
  from A B C D show ?thesis by blast
qed

theorem receiving_handlers_serve_in_turn_witness:
  "rcv_remote_data_handler example_loads example_ec
      [(''10.0.0.2'', [''Sa'', ''bc'']), (''10.0.0.4'', [''Sd''])] (Selfplay_init example_ec) =
     (None,
      (Selfplay_init example_ec)
        \<lparr> remote_worker_reg := [(''10.0.0.2'', True), (''10.0.0.4'', True)],
          data_queue := [Str ''abc'', Str ''d''],
          trace :=
            [Bind 6000,
             Listen, Accept ''10.0.0.2'', Recv ''Sa'', Recv ''bc'', Recv [], Close ''10.0.0.2'',
             Queue_put (Str ''abc''),
             Listen, Accept ''10.0.0.4'', Recv ''Sd'', Recv [], Close ''10.0.0.4'',
             Queue_put (Str ''d''),
             Listen] \<rparr>)
   \<and> remote_update_handler example_loads example_ec
      [(''10.0.0.2'', [''Sa'', ''bc'']), (''10.0.0.4'', [''Sd''])] (Selfplay_init example_ec) =
     (None,
      (Selfplay_init example_ec)
        \<lparr> loaded := Some (Str ''d''),
          trace :=
            [Bind 6001,
             Listen, Accept ''10.0.0.2'', Recv ''Sa'', Recv ''bc'', Recv [], Close ''10.0.0.2'',
             Load (Str ''abc''),
             Listen, Accept ''10.0.0.4'', Recv ''Sd'', Recv [], Close ''10.0.0.4'',
             Load (Str ''d''),
             Listen] \<rparr>)
   \<and> remote_update_handler example_loads example_ec
      (map fst [((''10.0.0.2'', [''Sa'', ''bc'']), Str ''abc''), ((''10.0.0.4'', [''Sd'']), Str ''d'')]
         @ (''10.0.0.3'', [''garbage'']) # [(''10.0.0.5'', [''Se''])])
      (Selfplay_init example_ec) =
     (Some (Exn ''UnpicklingError''),
      (Selfplay_init example_ec)
        \<lparr> loaded := Some (Str ''d''),
          trace :=
            [Bind 6001,
             Listen, Accept ''10.0.0.2'', Recv ''Sa'', Recv ''bc'', Recv [], Close ''10.0.0.2'',
             Load (Str ''abc''),
             Listen, Accept ''10.0.0.4'', Recv ''Sd'', Recv [], Close ''10.0.0.4'',
             Load (Str ''d''),
             Listen, Accept ''10.0.0.3'', Recv ''garbage'', Recv []] \<rparr>)"
proof -
  have ok: "\<forall>ci \<in> set [((''10.0.0.2'', [''Sa'', ''bc'']), Str ''abc''), ((''10.0.0.4'', [''Sd'']), Str ''d'')].
              example_loads (received_bytes (snd (fst ci))) = Inr (snd ci)"
    by (simp add: received_bytes_def example_loads_def)
  have bad: "example_loads (received_bytes (snd (''10.0.0.3'', [''garbage''])))
               = Inl (Exn ''UnpicklingError'')"
    by (simp add: received_bytes_def example_loads_def)
  from ok bad receiving_handlers_serve_in_turn
         [of "[((''10.0.0.2'', [''Sa'', ''bc'']), Str ''abc''), ((''10.0.0.4'', [''Sd'']), Str ''d'')]"
             example_loads example_ec "Selfplay_init example_ec"
             "(''10.0.0.3'', [''garbage''])" "Exn ''UnpicklingError''" "[(''10.0.0.5'', [''Se''])]"]
  show ?thesis
    by (simp add: conn_block_def recv_events_def example_ec_def Selfplay_init_def)
qed

text \<open>
  Claim C6 as stated fails: a connection whose bytes do not deserialize is accepted and
  read to its end, and then it is never closed and nothing is processed, in either
  receiving handler.
\<close>

theorem accepted_connection_never_closed_counterexample:
  "trace (snd (rcv_remote_data_handler example_loads example_ec [(''10.0.0.3'', [''garbage''])]
                 (Selfplay_init example_ec)))
     = [Bind 6000, Listen, Accept ''10.0.0.3'', Recv ''garbage'', Recv []]
   \<and> Close ''10.0.0.3'' \<notin> set (trace (snd (rcv_remote_data_handler example_loads example_ec
                 [(''10.0.0.3'', [''garbage''])] (Selfplay_init example_ec))))
   \<and> data_queue (snd (rcv_remote_data_handler example_loads example_ec [(''10.0.0.3'', [''garbage''])]
                 (Selfplay_init example_ec))) = []
   \<and> trace (snd (remote_update_handler example_loads example_ec [(''10.0.0.3'', [''garbage''])]
                 (Selfplay_init example_ec)))
     = [Bind 6001, Listen, Accept ''10.0.0.3'', Recv ''garbage'', Recv []]
   \<and> Close ''10.0.0.3'' \<notin> set (trace (snd (remote_update_handler example_loads example_ec
                 [(''10.0.0.3'', [''garbage''])] (Selfplay_init example_ec))))
   \<and> loaded (snd (remote_update_handler example_loads example_ec [(''10.0.0.3'', [''garbage''])]
                 (Selfplay_init example_ec))) = None"
  by (simp add: rcv_remote_data_handler_def rcv_remote_data_def remote_update_handler_def
        remote_update_turn_def log_def Let_def Selfplay_init_def example_ec_def example_loads_def)

section \<open>Properties of the model update handler\<close>

lemma Remote_Queue_put_never_raises:
  "first_exn (Remote_Queue_put reachable) port frame items = None"
  by (induction items) (simp_all add: Remote_Queue_put_def)

text \<open>
  Claim C3. With \<open>Remote_Queue.put\<close> as the spec describes it, one turn of the update
  handler calls \<open>put\<close> with the identifier frame once for every address of the registry,
  in the registry's order and whatever the other addresses do: the frame is delivered
  to each reachable address, the failure of each unreachable one is reported, and the
  local \<open>load\<close> of the same identifier follows.
\<close>

theorem broadcast_reaches_every_remote:
  "model_update (Remote_Queue_put reachable) str gc ec path s =
     (None,
      s\<lparr> loaded := Some (Str (''./'' @ name gc @ ''_model/ckpt-'' @ str path)),
         trace := trace s
           @ map (\<lambda>item. Remote_put (fst item) (remote_update_port ec)
                           (Str (''./'' @ name gc @ ''_model/ckpt-'' @ str path))
                           (if reachable (fst item) then Delivered else Reported))
               (remote_worker_reg s)
           @ [Load (Str (''./'' @ name gc @ ''_model/ckpt-'' @ str path))] \<rparr>)"
  by (simp add: model_update_eq Remote_Queue_put_never_raises send_event_def Remote_Queue_put_def)

theorem broadcast_reaches_every_remote_witness:
  "model_update (Remote_Queue_put example_reachable) (\<lambda>p. p) example_gc example_ec ''42'' example_master =
     (None,
      example_master
        \<lparr> loaded := Some (Str ''./mnk_model/ckpt-42''),
          trace := [Remote_put ''10.0.0.2'' 6001 (Str ''./mnk_model/ckpt-42'') Delivered,
                    Remote_put ''10.0.0.3'' 6001 (Str ''./mnk_model/ckpt-42'') Reported,
                    Remote_put ''10.0.0.4'' 6001 (Str ''./mnk_model/ckpt-42'') Delivered,
                    Load (Str ''./mnk_model/ckpt-42'')] \<rparr>)"
  using broadcast_reaches_every_remote
          [of example_reachable "\<lambda>p. p" example_gc example_ec "''42''" example_master]
  by (simp add: example_master_def example_gc_def example_ec_def example_reachable_def
        Selfplay_init_def)

text \<open>
  Claim C5. In one turn of the update handler the calls of \<open>put\<close> come first, one for
  each entry of the registry in its order, each with the identifier frame, and the
  \<open>load\<close> of the local evaluator comes last: when no \<open>put\<close> raises, the turn's events
  are exactly these; and in every case a \<open>load\<close> among the turn's events has the calls
  for all entries before it.
\<close>

theorem model_update_sends_then_loads:
  "((\<forall>item \<in> set (remote_worker_reg s).
        \<not> put_raises put (remote_update_port ec)
             (Str (''./'' @ name gc @ ''_model/ckpt-'' @ str path)) item) \<longrightarrow>
      model_update put str gc ec path s =
        (None,
         s\<lparr> loaded := Some (Str (''./'' @ name gc @ ''_model/ckpt-'' @ str path)),
            trace := trace s
              @ map (send_event put (remote_update_port ec)
                       (Str (''./'' @ name gc @ ''_model/ckpt-'' @ str path)))
                  (remote_worker_reg s)
              @ [Load (Str (''./'' @ name gc @ ''_model/ckpt-'' @ str path))] \<rparr>))
   \<and> (\<forall>x. Load x \<in> set (new_events s (snd (model_update put str gc ec path s))) \<longrightarrow>
          new_events s (snd (model_update put str gc ec path s)) =
            map (send_event put (remote_update_port ec)
                   (Str (''./'' @ name gc @ ''_model/ckpt-'' @ str path)))
              (remote_worker_reg s)
            @ [Load (Str (''./'' @ name gc @ ''_model/ckpt-'' @ str path))])"
proof (intro conjI impI allI)
  assume "\<forall>item \<in> set (remote_worker_reg s).
        \<not> put_raises put (remote_update_port ec)
             (Str (''./'' @ name gc @ ''_model/ckpt-'' @ str path)) item"
  then have "first_exn put (remote_update_port ec)
               (Str (''./'' @ name gc @ ''_model/ckpt-'' @ str path)) (remote_worker_reg s) = None"
    by (simp add: first_exn_None_iff)
  then show "model_update put str gc ec path s =
        (None,
         s\<lparr> loaded := Some (Str (''./'' @ name gc @ ''_model/ckpt-'' @ str path)),
            trace := trace s
              @ map (send_event put (remote_update_port ec)
                       (Str (''./'' @ name gc @ ''_model/ckpt-'' @ str path)))
                  (remote_worker_reg s)
              @ [Load (Str (''./'' @ name gc @ ''_model/ckpt-'' @ str path))] \<rparr>)"
    by (simp add: model_update_eq)
next
  fix x
  assume ld: "Load x \<in> set (new_events s (snd (model_update put str gc ec path s)))"
  show "new_events s (snd (model_update put str gc ec path s)) =
            map (send_event put (remote_update_port ec)
                   (Str (''./'' @ name gc @ ''_model/ckpt-'' @ str path)))
              (remote_worker_reg s)
            @ [Load (Str (''./'' @ name gc @ ''_model/ckpt-'' @ str path))]"
  proof (cases "first_exn put (remote_update_port ec)
               (Str (''./'' @ name gc @ ''_model/ckpt-'' @ str path)) (remote_worker_reg s)")
    case None
    then show ?thesis by (simp add: model_update_eq new_events_def)
  next
    case (Some e)
    with ld have False
      by (auto simp: model_update_eq new_events_def send_event_def)
    then show ?thesis ..
  qed
qed

theorem model_update_sends_then_loads_witness:
  "model_update (Remote_Queue_put example_reachable) (\<lambda>p. p) example_gc example_ec ''7'' example_master =
     (None,
      example_master
        \<lparr> loaded := Some (Str ''./mnk_model/ckpt-7''),
          trace := [Remote_put ''10.0.0.2'' 6001 (Str ''./mnk_model/ckpt-7'') Delivered,
                    Remote_put ''10.0.0.3'' 6001 (Str ''./mnk_model/ckpt-7'') Reported,
                    Remote_put ''10.0.0.4'' 6001 (Str ''./mnk_model/ckpt-7'') Delivered,
                    Load (Str ''./mnk_model/ckpt-7'')] \<rparr>)
   \<and> new_events example_master
        (snd (model_update (Remote_Queue_put example_reachable) (\<lambda>p. p) example_gc example_ec ''7''
                example_master)) =
       [Remote_put ''10.0.0.2'' 6001 (Str ''./mnk_model/ckpt-7'') Delivered,
        Remote_put ''10.0.0.3'' 6001 (Str ''./mnk_model/ckpt-7'') Reported,
        Remote_put ''10.0.0.4'' 6001 (Str ''./mnk_model/ckpt-7'') Delivered,
        Load (Str ''./mnk_model/ckpt-7'')]"
proof -
  have nr: "\<forall>item \<in> set (remote_worker_reg example_master).
        \<not> put_raises (Remote_Queue_put example_reachable) (remote_update_port example_ec)
             (Str (''./'' @ name example_gc @ ''_model/ckpt-'' @ ''7'')) item"
    by (simp add: example_master_def put_raises_def Remote_Queue_put_def)
  from nr model_update_sends_then_loads
         [of example_master "Remote_Queue_put example_reachable" example_ec example_gc "\<lambda>p. p" "''7''"]
  have eq: "model_update (Remote_Queue_put example_reachable) (\<lambda>p. p) example_gc example_ec ''7'' example_master =
        (None,
         example_master\<lparr> loaded := Some (Str (''./'' @ name example_gc @ ''_model/ckpt-'' @ ''7'')),
            trace := trace example_master
              @ map (send_event (Remote_Queue_put example_reachable) (remote_update_port example_ec)
                       (Str (''./'' @ name example_gc @ ''_model/ckpt-'' @ ''7'')))
                  (remote_worker_reg example_master)
              @ [Load (Str (''./'' @ name example_gc @ ''_model/ckpt-'' @ ''7''))] \<rparr>)"
    by blast
  show ?thesis
    unfolding eq
    by (simp add: new_events_def send_event_def Remote_Queue_put_def example_master_def
          example_gc_def example_ec_def example_reachable_def Selfplay_init_def)
qed

text \<open>
  Claim C9. In one turn of the master's update handler every frame handed to \<open>put\<close>
  and the argument of the local \<open>load\<close> are the same string, \<open>./\<close> + game name +
  \<open>_model/ckpt-\<close> + \<open>str(path)\<close>. A remote's update listener loads exactly the object
  its connection deserializes to. So when the frame arrives as sent, the remote loads
  the identifier the master loads.
\<close>

theorem update_identifier_agrees:
  "(\<forall>ev \<in> set (new_events s (snd (model_update put str gc ec path s))).
       (\<forall>a p f r. ev = Remote_put a p f r \<longrightarrow> f = Str (''./'' @ name gc @ ''_model/ckpt-'' @ str path))
     \<and> (\<forall>x. ev = Load x \<longrightarrow> x = Str (''./'' @ name gc @ ''_model/ckpt-'' @ str path)))
   \<and> (loads (received_bytes (snd conn)) = Inr img \<longrightarrow>
        loaded (snd (remote_update_turn loads conn r)) = Some img
      \<and> (\<forall>x. Load x \<in> set (new_events r (snd (remote_update_turn loads conn r))) \<longleftrightarrow> x = img))
   \<and> (fst (model_update put str gc ec path s) = None
        \<and> loads (received_bytes (snd conn)) = Inr (Str (''./'' @ name gc @ ''_model/ckpt-'' @ str path)) \<longrightarrow>
        loaded (snd (remote_update_turn loads conn r)) = loaded (snd (model_update put str gc ec path s)))"
proof -
  have A: "\<forall>ev \<in> set (new_events s (snd (model_update put str gc ec path s))).
       (\<forall>a p f r. ev = Remote_put a p f r \<longrightarrow> f = Str (''./'' @ name gc @ ''_model/ckpt-'' @ str path))
     \<and> (\<forall>x. ev = Load x \<longrightarrow> x = Str (''./'' @ name gc @ ''_model/ckpt-'' @ str path))"
    by (auto simp: model_update_eq new_events_def send_event_def split: if_splits)
  have B: "loaded (snd (remote_update_turn loads conn r)) = Some img
      \<and> (\<forall>x. Load x \<in> set (new_events r (snd (remote_update_turn loads conn r))) \<longleftrightarrow> x = img)"
    if img: "loads (received_bytes (snd conn)) = Inr img"
    using img
    by (auto simp: remote_update_turn_ok [of loads conn img] new_events_def recv_events_def)
  have C: "loaded (snd (remote_update_turn loads conn r)) = loaded (snd (model_update put str gc ec path s))"
    if a: "fst (model_update put str gc ec path s) = None
        \<and> loads (received_bytes (snd conn)) = Inr (Str (''./'' @ name gc @ ''_model/ckpt-'' @ str path))"
  proof -
    from a have ne: "first_exn put (remote_update_port ec)
        (Str (''./'' @ name gc @ ''_model/ckpt-'' @ str path)) (remote_worker_reg s) = None"
      by (simp add: model_update_eq)
    from a have "loaded (snd (remote_update_turn loads conn r))
                   = Some (Str (''./'' @ name gc @ ''_model/ckpt-'' @ str path))"
      by (simp add: remote_update_turn_ok [of loads conn "Str (''./'' @ name gc @ ''_model/ckpt-'' @ str path)"])
    moreover from ne have "loaded (snd (model_update put str gc ec path s))
                   = Some (Str (''./'' @ name gc @ ''_model/ckpt-'' @ str path))"
      by (simp add: model_update_eq)
    ultimately show ?thesis by simp
  qed
  from A B C show ?thesis by blast
qed

theorem update_identifier_agrees_witness:
  "loaded (snd (remote_update_turn example_loads (''10.0.0.1'', [''S./mnk'', ''_model/ckpt-42'']) example_remote))
     = Some (Str ''./mnk_model/ckpt-42'')
   \<and> loaded (snd (model_update (Remote_Queue_put example_reachable) (\<lambda>p. p) example_gc example_ec ''42''
                    example_master))
     = Some (Str ''./mnk_model/ckpt-42'')"
proof -
  have l: "example_loads (received_bytes (snd (''10.0.0.1'', [''S./mnk'', ''_model/ckpt-42''])))
             = Inr (Str (''./'' @ name example_gc @ ''_model/ckpt-'' @ ''42''))"
    by (simp add: example_loads_def received_bytes_def example_gc_def)
  have m: "fst (model_update (Remote_Queue_put example_reachable) (\<lambda>p. p) example_gc example_ec ''42''
                  example_master) = None"
    by (simp add: model_update_def example_master_def Remote_Queue_put_def log_def
          Selfplay_init_def example_ec_def)
  from update_identifier_agrees
         [of example_master "Remote_Queue_put example_reachable" "\<lambda>p. p" example_gc example_ec "''42''"
             example_loads "(''10.0.0.1'', [''S./mnk'', ''_model/ckpt-42''])"
             "Str (''./'' @ name example_gc @ ''_model/ckpt-'' @ ''42'')" example_remote]
       l m
  have "loaded (snd (remote_update_turn example_loads (''10.0.0.1'', [''S./mnk'', ''_model/ckpt-42'']) example_remote))
          = Some (Str (''./'' @ name example_gc @ ''_model/ckpt-'' @ ''42''))
      \<and> loaded (snd (remote_update_turn example_loads (''10.0.0.1'', [''S./mnk'', ''_model/ckpt-42'']) example_remote))
          = loaded (snd (model_update (Remote_Queue_put example_reachable) (\<lambda>p. p) example_gc example_ec ''42''
                    example_master))"
    by blast
  then have "loaded (snd (remote_update_turn example_loads (''10.0.0.1'', [''S./mnk'', ''_model/ckpt-42'']) example_remote))
          = Some (Str ''./mnk_model/ckpt-42'')
      \<and> loaded (snd (model_update (Remote_Queue_put example_reachable) (\<lambda>p. p) example_gc example_ec ''42''
                    example_master))
          = Some (Str (''./'' @ name example_gc @ ''_model/ckpt-'' @ ''42''))"
    by (auto simp: example_gc_def)
  then show ?thesis by (simp add: example_gc_def)
qed

section \<open>Properties of the component as a whole\<close>

lemma rcv_remote_data_frame:
  "worker_lim (snd (rcv_remote_data loads conn s)) = worker_lim s"
  "running (snd (rcv_remote_data loads conn s)) = running s"
  "launcher_holds (snd (rcv_remote_data loads conn s)) = launcher_holds s"
  "threads (snd (rcv_remote_data loads conn s)) = threads s"
proof -
  show "worker_lim (snd (rcv_remote_data loads conn s)) = worker_lim s"
    by (cases "loads (received_bytes (snd conn))")
       (simp_all add: rcv_remote_data_def recv_all_eq log_def Let_def)
  show "running (snd (rcv_remote_data loads conn s)) = running s"
    by (cases "loads (received_bytes (snd conn))")
       (simp_all add: rcv_remote_data_def recv_all_eq log_def Let_def)
  show "launcher_holds (snd (rcv_remote_data loads conn s)) = launcher_holds s"
    by (cases "loads (received_bytes (snd conn))")
       (simp_all add: rcv_remote_data_def recv_all_eq log_def Let_def)
  show "threads (snd (rcv_remote_data loads conn s)) = threads s"
    by (cases "loads (received_bytes (snd conn))")
       (simp_all add: rcv_remote_data_def recv_all_eq log_def Let_def)
qed

lemma remote_update_turn_frame:
  "worker_lim (snd (remote_update_turn loads conn s)) = worker_lim s"
  "running (snd (remote_update_turn loads conn s)) = running s"
  "launcher_holds (snd (remote_update_turn loads conn s)) = launcher_holds s"
  "threads (snd (remote_update_turn loads conn s)) = threads s"
  "remote_worker_reg (snd (remote_update_turn loads conn s)) = remote_worker_reg s"
proof -
  show "worker_lim (snd (remote_update_turn loads conn s)) = worker_lim s"
    by (cases "loads (received_bytes (snd conn))")
       (simp_all add: remote_update_turn_def recv_all_eq log_def nn_load_def Let_def)
  show "running (snd (remote_update_turn loads conn s)) = running s"
    by (cases "loads (received_bytes (snd conn))")
       (simp_all add: remote_update_turn_def recv_all_eq log_def nn_load_def Let_def)
  show "launcher_holds (snd (remote_update_turn loads conn s)) = launcher_holds s"
    by (cases "loads (received_bytes (snd conn))")
       (simp_all add: remote_update_turn_def recv_all_eq log_def nn_load_def Let_def)
  show "threads (snd (remote_update_turn loads conn s)) = threads s"
    by (cases "loads (received_bytes (snd conn))")
       (simp_all add: remote_update_turn_def recv_all_eq log_def nn_load_def Let_def)
  show "remote_worker_reg (snd (remote_update_turn loads conn s)) = remote_worker_reg s"
    by (cases "loads (received_bytes (snd conn))")
       (simp_all add: remote_update_turn_def recv_all_eq log_def nn_load_def Let_def)
qed

lemma model_update_frame:
  "worker_lim (snd (model_update put str gc ec path s)) = worker_lim s"
  "running (snd (model_update put str gc ec path s)) = running s"
  "launcher_holds (snd (model_update put str gc ec path s)) = launcher_holds s"
  "threads (snd (model_update put str gc ec path s)) = threads s"
  "remote_worker_reg (snd (model_update put str gc ec path s)) = remote_worker_reg s"
  by (simp_all add: model_update_eq)

lemma thread_turn_frame:
  "worker_lim (thread_turn h r) = worker_lim (snd r)"
  "running (thread_turn h r) = running (snd r)"
  "launcher_holds (thread_turn h r) = launcher_holds (snd r)"
  "remote_worker_reg (thread_turn h r) = remote_worker_reg (snd r)"
  "trace (thread_turn h r) = trace (snd r)"
  "set (threads (thread_turn h r)) \<subseteq> set (threads (snd r))"
  by (auto simp: thread_turn_def split: option.splits)

lemma selfplay_wrapper_frame:
  "running (snd (selfplay_wrapper game put_exn s)) = running s"
  "launcher_holds (snd (selfplay_wrapper game put_exn s)) = launcher_holds s"
  "threads (snd (selfplay_wrapper game put_exn s)) = threads s"
  "remote_worker_reg (snd (selfplay_wrapper game put_exn s)) = remote_worker_reg s"
  "worker_lim (snd (selfplay_wrapper game put_exn s)) \<le> worker_lim s + 1"
  by (simp_all add: selfplay_wrapper_def log_def Let_def split: sum.splits option.splits)

lemma step_pool:
  assumes "selfplay_step w gc ec operation s = Some s'"
    and "worker_lim s + running s + (if launcher_holds s then 1 else 0) \<le> N"
  shows "worker_lim s' + running s' + (if launcher_holds s' then 1 else 0) \<le> N"
proof (cases operation)
  case Launcher_acquire
  with assms show ?thesis
    by (auto simp: selfplay_step_def launcher_acquire_def log_def split: if_splits)
next
  case Launcher_start
  with assms show ?thesis
    by (auto simp: selfplay_step_def launcher_start_def log_def split: if_splits)
next
  case (Unit_exit game put_exn)
  with assms have r: "running s > 0"
    and s': "s' = (snd (selfplay_wrapper game put_exn s))
                    \<lparr> running := running (snd (selfplay_wrapper game put_exn s)) - 1 \<rparr>"
    by (auto simp: selfplay_step_def unit_exit_def Let_def split: if_splits)
  from selfplay_wrapper_frame(5) [of game put_exn s] r assms(2) show ?thesis
    by (simp add: s' selfplay_wrapper_frame)
next
  case (Rcv_data conn)
  with assms show ?thesis
    by (auto simp: selfplay_step_def thread_turn_frame rcv_remote_data_frame split: if_splits)
next
  case (Model_path path)
  with assms show ?thesis
    by (auto simp: selfplay_step_def thread_turn_frame model_update_frame split: if_splits)
next
  case (Update_conn conn)
  with assms show ?thesis
    by (auto simp: selfplay_step_def thread_turn_frame remote_update_turn_frame split: if_splits)
qed

lemma steps_pool:
  "selfplay_steps w gc ec ops s = Some s' \<Longrightarrow>
   worker_lim s + running s + (if launcher_holds s then 1 else 0) \<le> N \<Longrightarrow>
   worker_lim s' + running s' + (if launcher_holds s' then 1 else 0) \<le> N"
proof (induction ops arbitrary: s)
  case Nil
  then show ?case by simp
next
  case (Cons operation ops)
  from Cons.prems(1) obtain s1 where s1: "selfplay_step w gc ec operation s = Some s1"
    and rest: "selfplay_steps w gc ec ops s1 = Some s'"
    by (auto split: option.splits)
  from step_pool [OF s1 Cons.prems(2)] Cons.IH [OF rest] show ?case by blast
qed


text \<open>
  Claim C4. In every state the component reaches from its start, for every worker
  limit, the number of running self-play units is at most the limit; indeed the value
  of the semaphore, the running units and the unit the launcher holds between
  \<open>acquire\<close> and the start of the process never add up to more than the limit. The
  launcher starts a process only while it holds a unit it has acquired, acquiring takes
  one unit from a positive semaphore, and a unit that completes gives back exactly one.
\<close>

theorem worker_pool_bounded:
  "(selfplay_steps w gc ec ops (run_start ec (Selfplay_init ec)) = Some s \<longrightarrow>
      running s \<le> num_worker ec
    \<and> worker_lim s + running s + (if launcher_holds s then 1 else 0) \<le> num_worker ec)
   \<and> (launcher_acquire s0 = Some s1 \<longrightarrow>
        0 < worker_lim s0 \<and> worker_lim s1 = worker_lim s0 - 1 \<and> launcher_holds s1
      \<and> running s1 = running s0)
   \<and> (launcher_start s0 = Some s1 \<longrightarrow>
        launcher_holds s0 \<and> running s1 = running s0 + 1 \<and> worker_lim s1 = worker_lim s0)
   \<and> (unit_exit (Inr data) None s0 = Some s1 \<longrightarrow>
        worker_lim s1 = worker_lim s0 + 1 \<and> running s1 = running s0 - 1)"
proof -
  have A: "running s \<le> num_worker ec
    \<and> worker_lim s + running s + (if launcher_holds s then 1 else 0) \<le> num_worker ec"
    if st: "selfplay_steps w gc ec ops (run_start ec (Selfplay_init ec)) = Some s"
  proof -
    from st steps_pool [of w gc ec ops "run_start ec (Selfplay_init ec)" s "num_worker ec"]
    show ?thesis by (simp add: run_start_def Selfplay_init_def)
  qed
  have B: "0 < worker_lim s0 \<and> worker_lim s1 = worker_lim s0 - 1 \<and> launcher_holds s1
      \<and> running s1 = running s0"
    if "launcher_acquire s0 = Some s1"
    using that by (auto simp: launcher_acquire_def log_def split: if_splits)
  have C: "launcher_holds s0 \<and> running s1 = running s0 + 1 \<and> worker_lim s1 = worker_lim s0"
    if "launcher_start s0 = Some s1"
    using that by (auto simp: launcher_start_def log_def split: if_splits)
  have D: "worker_lim s1 = worker_lim s0 + 1 \<and> running s1 = running s0 - 1"
    if "unit_exit (Inr data) None s0 = Some s1"
    using that by (auto simp: unit_exit_def selfplay_wrapper_def log_def Let_def split: if_splits)
  from A B C D show ?thesis by blast
qed

theorem worker_pool_bounded_witness:
  "selfplay_steps example_world example_gc example_ec
      [Launcher_acquire, Launcher_start, Launcher_acquire, Launcher_start,
       Unit_exit (Inr (Str ''g'')) None, Launcher_acquire, Launcher_start,
       Unit_exit (Inl (Exn ''IllegalMove'')) None]
      (run_start example_ec (Selfplay_init example_ec)) \<noteq> None
   \<and> running (the (selfplay_steps example_world example_gc example_ec
      [Launcher_acquire, Launcher_start, Launcher_acquire, Launcher_start,
       Unit_exit (Inr (Str ''g'')) None, Launcher_acquire, Launcher_start,
       Unit_exit (Inl (Exn ''IllegalMove'')) None]
      (run_start example_ec (Selfplay_init example_ec)))) \<le> num_worker example_ec"
proof -
  have "\<exists>s. selfplay_steps example_world example_gc example_ec
      [Launcher_acquire, Launcher_start, Launcher_acquire, Launcher_start,
       Unit_exit (Inr (Str ''g'')) None, Launcher_acquire, Launcher_start,
       Unit_exit (Inl (Exn ''IllegalMove'')) None]
      (run_start example_ec (Selfplay_init example_ec)) = Some s"
    by (simp add: selfplay_step_def launcher_acquire_def launcher_start_def unit_exit_def
          selfplay_wrapper_def log_def Let_def run_start_def Selfplay_init_def example_ec_def)
  then obtain s where s: "selfplay_steps example_world example_gc example_ec
      [Launcher_acquire, Launcher_start, Launcher_acquire, Launcher_start,
       Unit_exit (Inr (Str ''g'')) None, Launcher_acquire, Launcher_start,
       Unit_exit (Inl (Exn ''IllegalMove'')) None]
      (run_start example_ec (Selfplay_init example_ec)) = Some s" ..
  from s worker_pool_bounded [of example_world example_gc example_ec
      "[Launcher_acquire, Launcher_start, Launcher_acquire, Launcher_start,
       Unit_exit (Inr (Str ''g'')) None, Launcher_acquire, Launcher_start,
       Unit_exit (Inl (Exn ''IllegalMove'')) None]" s]
  have "running s \<le> num_worker example_ec" by blast
  with s show ?thesis by simp
qed

lemma pool_saturated_blocks:
  "selfplay_steps example_world example_gc example_ec
      [Launcher_acquire, Launcher_start, Launcher_acquire, Launcher_start, Launcher_acquire]
      (run_start example_ec (Selfplay_init example_ec)) = None"
  by (simp add: selfplay_step_def launcher_acquire_def launcher_start_def
        log_def run_start_def Selfplay_init_def example_ec_def)

lemma step_reg_grows:
  assumes "selfplay_step w gc ec operation s = Some s'"
  shows "fst ` set (remote_worker_reg s) \<subseteq> fst ` set (remote_worker_reg s')"
proof (cases operation)
  case Launcher_acquire
  with assms show ?thesis
    by (auto simp: selfplay_step_def launcher_acquire_def log_def split: if_splits)
next
  case Launcher_start
  with assms show ?thesis
    by (auto simp: selfplay_step_def launcher_start_def log_def split: if_splits)
next
  case (Unit_exit game put_exn)
  with assms show ?thesis
    by (auto simp: selfplay_step_def unit_exit_def Let_def selfplay_wrapper_frame split: if_splits)
next
  case (Rcv_data conn)
  with assms have s': "s' = thread_turn Rcv_remote_data_handler (rcv_remote_data (pickle_loads w) conn s)"
    by (auto simp: selfplay_step_def split: if_splits)
  show ?thesis
  proof (cases "pickle_loads w (received_bytes (snd conn))")
    case (Inl e)
    then show ?thesis
      by (simp add: s' thread_turn_frame rcv_remote_data_fail [of "pickle_loads w" conn e])
  next
    case (Inr img)
    then show ?thesis
      by (auto simp: s' thread_turn_frame rcv_remote_data_ok [of "pickle_loads w" conn img] dom_update)
  qed
next
  case (Model_path path)
  with assms show ?thesis
    by (auto simp: selfplay_step_def thread_turn_frame model_update_frame split: if_splits)
next
  case (Update_conn conn)
  with assms show ?thesis
    by (auto simp: selfplay_step_def thread_turn_frame remote_update_turn_frame split: if_splits)
qed

lemma steps_reg_grows:
  "selfplay_steps w gc ec ops s = Some s' \<Longrightarrow>
   fst ` set (remote_worker_reg s) \<subseteq> fst ` set (remote_worker_reg s')"
proof (induction ops arbitrary: s)
  case Nil
  then show ?case by simp
next
  case (Cons operation ops)
  from Cons.prems obtain s1 where s1: "selfplay_step w gc ec operation s = Some s1"
    and rest: "selfplay_steps w gc ec ops s1 = Some s'"
    by (auto split: option.splits)
  from step_reg_grows [OF s1] Cons.IH [OF rest] show ?case by blast
qed

lemma alist_update_subset: "set (AList.update key v al) \<subseteq> insert (key, v) (set al)"
  by (induction al) auto

lemma step_reg_flags:
  assumes "selfplay_step w gc ec operation s = Some s'"
    and "\<forall>item \<in> set (remote_worker_reg s). snd item"
  shows "\<forall>item \<in> set (remote_worker_reg s'). snd item"
proof (cases operation)
  case Launcher_acquire
  with assms show ?thesis
    by (auto simp: selfplay_step_def launcher_acquire_def log_def split: if_splits)
next
  case Launcher_start
  with assms show ?thesis
    by (auto simp: selfplay_step_def launcher_start_def log_def split: if_splits)
next
  case (Unit_exit game put_exn)
  with assms show ?thesis
    by (auto simp: selfplay_step_def unit_exit_def Let_def selfplay_wrapper_frame split: if_splits)
next
  case (Rcv_data conn)
  with assms have s': "s' = thread_turn Rcv_remote_data_handler (rcv_remote_data (pickle_loads w) conn s)"
    by (auto simp: selfplay_step_def split: if_splits)
  show ?thesis
  proof (cases "pickle_loads w (received_bytes (snd conn))")
    case (Inl e)
    with assms(2) show ?thesis
      by (simp add: s' thread_turn_frame rcv_remote_data_fail [of "pickle_loads w" conn e])
  next
    case (Inr img)
    with assms(2) alist_update_subset [of "fst conn" True "remote_worker_reg s"] show ?thesis
      by (auto simp: s' thread_turn_frame rcv_remote_data_ok [of "pickle_loads w" conn img])
  qed
next
  case (Model_path path)
  with assms show ?thesis
    by (auto simp: selfplay_step_def thread_turn_frame model_update_frame split: if_splits)
next
  case (Update_conn conn)
  with assms show ?thesis
    by (auto simp: selfplay_step_def thread_turn_frame remote_update_turn_frame split: if_splits)
qed

lemma steps_reg_flags:
  "selfplay_steps w gc ec ops s = Some s' \<Longrightarrow>
   \<forall>item \<in> set (remote_worker_reg s). snd item \<Longrightarrow>
   \<forall>item \<in> set (remote_worker_reg s'). snd item"
proof (induction ops arbitrary: s)
  case Nil
  then show ?case by simp
next
  case (Cons operation ops)
  from Cons.prems(1) obtain s1 where s1: "selfplay_step w gc ec operation s = Some s1"
    and rest: "selfplay_steps w gc ec ops s1 = Some s'"
    by (auto split: option.splits)
  from step_reg_flags [OF s1 Cons.prems(2)] Cons.IH [OF rest] show ?case by blast
qed

lemma selfplay_step_Rcv_data:
  "selfplay_step w gc ec (Rcv_data conn) s =
     (if Rcv_remote_data_handler \<in> set (threads s)
      then (case pickle_loads w (received_bytes (snd conn)) of
              Inl e \<Rightarrow>
                Some (s\<lparr> threads := removeAll Rcv_remote_data_handler (threads s),
                          trace := trace s @ [Listen, Accept (fst conn)] @ recv_events (snd conn) \<rparr>)
            | Inr img \<Rightarrow>
                Some (s\<lparr> remote_worker_reg := AList.update (fst conn) True (remote_worker_reg s),
                          data_queue := data_queue s @ [img],
                          trace := trace s @ [Listen, Accept (fst conn)] @ recv_events (snd conn)
                                     @ [Close (fst conn), Queue_put img] \<rparr>))
      else None)"
proof (cases "pickle_loads w (received_bytes (snd conn))")
  case (Inl e)
  then show ?thesis
    by (simp add: selfplay_step_def thread_turn_def rcv_remote_data_fail [of "pickle_loads w" conn e])
next
  case (Inr img)
  then show ?thesis
    by (simp add: selfplay_step_def thread_turn_def rcv_remote_data_ok [of "pickle_loads w" conn img])
qed

text \<open>
  Claim C8. The registry starts empty. A turn of the data receiver whose frame
  deserializes puts the frame on the queue and leaves the registry with the sender's
  address mapped to \<open>True\<close>, its keys being the earlier keys and that address; a turn
  whose frame does not deserialize leaves the registry as it was. No operation of the
  component removes a key: over every sequence of operations the key set only grows,
  and every flag stays \<open>True\<close>.
\<close>

theorem registry_only_grows:
  "remote_worker_reg (Selfplay_init ec :: 'r selfplay) = []
   \<and> (loads (received_bytes (snd conn)) = Inr img \<longrightarrow>
        map_of (remote_worker_reg (snd (rcv_remote_data loads conn s))) (fst conn) = Some True
      \<and> fst ` set (remote_worker_reg (snd (rcv_remote_data loads conn s)))
          = insert (fst conn) (fst ` set (remote_worker_reg s))
      \<and> data_queue (snd (rcv_remote_data loads conn s)) = data_queue s @ [img])
   \<and> (loads (received_bytes (snd conn)) = Inl e \<longrightarrow>
        remote_worker_reg (snd (rcv_remote_data loads conn s)) = remote_worker_reg s)
   \<and> (selfplay_steps w gc ec' ops (s :: 'r selfplay) = Some s' \<longrightarrow>
        fst ` set (remote_worker_reg s) \<subseteq> fst ` set (remote_worker_reg s')
      \<and> ((\<forall>item \<in> set (remote_worker_reg s). snd item) \<longrightarrow>
           (\<forall>item \<in> set (remote_worker_reg s'). snd item)))"
proof -
  have A: "remote_worker_reg (Selfplay_init ec :: 'r selfplay) = []"
    by (simp add: Selfplay_init_def)
  have B: "map_of (remote_worker_reg (snd (rcv_remote_data loads conn s))) (fst conn) = Some True
      \<and> fst ` set (remote_worker_reg (snd (rcv_remote_data loads conn s)))
          = insert (fst conn) (fst ` set (remote_worker_reg s))
      \<and> data_queue (snd (rcv_remote_data loads conn s)) = data_queue s @ [img]"
    if "loads (received_bytes (snd conn)) = Inr img"
    using that
    by (simp add: rcv_remote_data_ok [of loads conn img] update_conv' dom_update)
  have C: "remote_worker_reg (snd (rcv_remote_data loads conn s)) = remote_worker_reg s"
    if "loads (received_bytes (snd conn)) = Inl e"
    using that by (simp add: rcv_remote_data_fail [of loads conn e])
  have D: "fst ` set (remote_worker_reg s) \<subseteq> fst ` set (remote_worker_reg s')
      \<and> ((\<forall>item \<in> set (remote_worker_reg s). snd item) \<longrightarrow>
           (\<forall>item \<in> set (remote_worker_reg s'). snd item))"
    if st: "selfplay_steps w gc ec' ops s = Some s'"
    using steps_reg_grows [OF st] steps_reg_flags [OF st] by blast
  from A B C D show ?thesis by blast
qed

theorem registry_only_grows_witness:
  "remote_worker_reg (the (selfplay_steps example_world example_gc example_ec
      [Rcv_data (''10.0.0.9'', [''Sg'']), Launcher_acquire, Rcv_data (''10.0.0.2'', [''Sh''])]
      (run_start example_ec (Selfplay_init example_ec))))
     = [(''10.0.0.9'', True), (''10.0.0.2'', True)]
   \<and> fst ` set (remote_worker_reg (run_start example_ec (Selfplay_init example_ec) :: unit selfplay))
       \<subseteq> fst ` set (remote_worker_reg (the (selfplay_steps example_world example_gc example_ec
      [Rcv_data (''10.0.0.9'', [''Sg'']), Launcher_acquire, Rcv_data (''10.0.0.2'', [''Sh''])]
      (run_start example_ec (Selfplay_init example_ec)))))"
proof -
  have l1: "pickle_loads example_world (received_bytes [''Sg'']) = Inr (Str ''g'')"
    by (simp add: example_world_def example_loads_def received_bytes_def)
  have l2: "pickle_loads example_world (received_bytes [''Sh'']) = Inr (Str ''h'')"
    by (simp add: example_world_def example_loads_def received_bytes_def)
  have acq: "selfplay_step example_world gc ec Launcher_acquire s = launcher_acquire s"
    for gc ec and s :: "unit selfplay"
    by (simp add: selfplay_step_def)
  have ne: "selfplay_steps example_world example_gc example_ec
      [Rcv_data (''10.0.0.9'', [''Sg'']), Launcher_acquire, Rcv_data (''10.0.0.2'', [''Sh''])]
      (run_start example_ec (Selfplay_init example_ec)) \<noteq> None"
    by (simp add: selfplay_step_Rcv_data l1 l2 acq launcher_acquire_def log_def run_start_def
          run_threads_def Selfplay_init_def example_ec_def)
  have r: "remote_worker_reg (the (selfplay_steps example_world example_gc example_ec
      [Rcv_data (''10.0.0.9'', [''Sg'']), Launcher_acquire, Rcv_data (''10.0.0.2'', [''Sh''])]
      (run_start example_ec (Selfplay_init example_ec))))
     = [(''10.0.0.9'', True), (''10.0.0.2'', True)]"
    by (simp add: selfplay_step_Rcv_data l1 l2 acq launcher_acquire_def log_def run_start_def
          run_threads_def Selfplay_init_def example_ec_def)
  from ne obtain s' where s': "selfplay_steps example_world example_gc example_ec
      [Rcv_data (''10.0.0.9'', [''Sg'']), Launcher_acquire, Rcv_data (''10.0.0.2'', [''Sh''])]
      (run_start example_ec (Selfplay_init example_ec)) = Some s'"
    by blast
  from s' registry_only_grows
     [of example_ec example_loads "(''10.0.0.9'', [''Sg''])" "Str ''g''"
         "run_start example_ec (Selfplay_init example_ec)" "Exn ''x''" example_world example_gc example_ec
         "[Rcv_data (''10.0.0.9'', [''Sg'']), Launcher_acquire, Rcv_data (''10.0.0.2'', [''Sh''])]" s']
  have "fst ` set (remote_worker_reg (run_start example_ec (Selfplay_init example_ec) :: unit selfplay))
          \<subseteq> fst ` set (remote_worker_reg s')"
    by blast
  with s' r show ?thesis by simp
qed

lemma step_remote_inv:
  assumes "selfplay_step w gc ec operation s = Some s'" and "remote_inv s"
  shows "remote_inv s'"
proof (cases operation)
  case Launcher_acquire
  with assms show ?thesis
    by (auto simp: remote_inv_def selfplay_step_def launcher_acquire_def log_def split: if_splits)
next
  case Launcher_start
  with assms show ?thesis
    by (auto simp: remote_inv_def selfplay_step_def launcher_start_def log_def split: if_splits)
next
  case (Unit_exit game put_exn)
  with assms show ?thesis
    by (auto simp: remote_inv_def selfplay_step_def unit_exit_def selfplay_wrapper_def log_def Let_def
             split: if_splits sum.splits option.splits)
next
  case (Rcv_data conn)
  with assms show ?thesis
    by (simp add: remote_inv_def selfplay_step_def)
next
  case (Model_path path)
  with assms show ?thesis
    by (simp add: remote_inv_def selfplay_step_def)
next
  case (Update_conn conn)
  with assms have s': "s' = thread_turn Remote_update_handler (remote_update_turn (pickle_loads w) conn s)"
    by (auto simp: selfplay_step_def split: if_splits)
  show ?thesis
  proof (cases "pickle_loads w (received_bytes (snd conn))")
    case (Inl e)
    with assms(2) show ?thesis
      by (auto simp: s' remote_inv_def thread_turn_def recv_events_def list_all_iff
            remote_update_turn_fail [of "pickle_loads w" conn e])
  next
    case (Inr img)
    with assms(2) show ?thesis
      by (auto simp: s' remote_inv_def thread_turn_def recv_events_def list_all_iff
            remote_update_turn_ok [of "pickle_loads w" conn img])
  qed
qed

lemma steps_remote_inv:
  "selfplay_steps w gc ec ops s = Some s' \<Longrightarrow> remote_inv s \<Longrightarrow> remote_inv s'"
proof (induction ops arbitrary: s)
  case Nil
  then show ?case by simp
next
  case (Cons operation ops)
  from Cons.prems(1) obtain s1 where s1: "selfplay_step w gc ec operation s = Some s1"
    and rest: "selfplay_steps w gc ec ops s1 = Some s'"
    by (auto split: option.splits)
  from step_remote_inv [OF s1 Cons.prems(2)] Cons.IH [OF rest] show ?case by blast
qed

text \<open>
  Claim C7. An instance configured as remote starts the remote update listener and no
  other handler; an instance not so configured starts the remote data receiver and the
  model update handler. A turn of the update listener on a frame that deserializes
  closes the connection and calls \<open>load\<close> with the decoded object, and does nothing
  else: no \<open>put\<close> to a remote, no change of the registry. In every state a remote
  instance reaches, the registry is empty and no frame has been sent to a remote.
\<close>

theorem remote_runs_update_listener_only:
  "(remote ec = Some True \<longrightarrow> run_threads ec = [Remote_update_handler])
   \<and> (remote ec \<noteq> Some True \<longrightarrow> run_threads ec = [Rcv_remote_data_handler, Model_update_handler])
   \<and> (loads (received_bytes (snd conn)) = Inr img \<longrightarrow>
        remote_update_turn loads conn s0 =
          (None, s0\<lparr> loaded := Some img,
                    trace := trace s0 @ [Listen, Accept (fst conn)] @ recv_events (snd conn)
                               @ [Close (fst conn), Load img] \<rparr>))
   \<and> (remote ec = Some True
        \<and> selfplay_steps w gc ec ops (run_start ec (Selfplay_init ec)) = Some s \<longrightarrow>
        remote_worker_reg s = []
      \<and> set (threads s) \<subseteq> {Remote_update_handler}
      \<and> (\<forall>a port frame r. Remote_put a port frame r \<notin> set (trace s)))"
proof -
  have A: "remote ec = Some True \<longrightarrow> run_threads ec = [Remote_update_handler]"
    by (simp add: run_threads_def)
  have B: "remote ec \<noteq> Some True \<longrightarrow> run_threads ec = [Rcv_remote_data_handler, Model_update_handler]"
    by (simp add: run_threads_def)
  have C: "remote_update_turn loads conn s0 =
          (None, s0\<lparr> loaded := Some img,
                    trace := trace s0 @ [Listen, Accept (fst conn)] @ recv_events (snd conn)
                               @ [Close (fst conn), Load img] \<rparr>)"
    if "loads (received_bytes (snd conn)) = Inr img"
    using that by (rule remote_update_turn_ok)
  have D: "remote_worker_reg s = []
      \<and> set (threads s) \<subseteq> {Remote_update_handler}
      \<and> (\<forall>a port frame r. Remote_put a port frame r \<notin> set (trace s))"
    if a: "remote ec = Some True
        \<and> selfplay_steps w gc ec ops (run_start ec (Selfplay_init ec)) = Some s"
  proof -
    from a have "remote_inv (run_start ec (Selfplay_init ec))"
      by (simp add: remote_inv_def run_start_def run_threads_def Selfplay_init_def)
    with a steps_remote_inv [of w gc ec ops "run_start ec (Selfplay_init ec)" s]
    have inv: "remote_inv s" by blast
    have thr: "set (threads s) \<subseteq> {Remote_update_handler}"
    proof
      fix h assume "h \<in> set (threads s)"
      with inv show "h \<in> {Remote_update_handler}"
        by (cases h) (auto simp: remote_inv_def)
    qed
    have "Remote_put a port frame r \<notin> set (trace s)" for a port frame r
    proof
      assume "Remote_put a port frame r \<in> set (trace s)"
      with inv show False
        by (auto simp: remote_inv_def list_all_iff)
    qed
    with inv thr show ?thesis by (simp add: remote_inv_def)
  qed
  from A B C D show ?thesis by blast
qed

theorem remote_runs_update_listener_only_witness:
  "run_threads (example_ec\<lparr> remote := Some True \<rparr>) = [Remote_update_handler]
   \<and> run_threads example_ec = [Rcv_remote_data_handler, Model_update_handler]
   \<and> remote_update_turn example_loads (''10.0.0.1'', [''S./mnk_model/ckpt-42'']) example_remote =
        (None, example_remote\<lparr> loaded := Some (Str ''./mnk_model/ckpt-42''),
                 trace := [Listen, Accept ''10.0.0.1'', Recv ''S./mnk_model/ckpt-42'', Recv [],
                           Close ''10.0.0.1'', Load (Str ''./mnk_model/ckpt-42'')] \<rparr>)
   \<and> remote_worker_reg (the (selfplay_steps example_world example_gc (example_ec\<lparr> remote := Some True \<rparr>)
        [Launcher_acquire, Update_conn (''10.0.0.1'', [''S./mnk_model/ckpt-42'']), Launcher_start,
         Unit_exit (Inr (Str ''g'')) None]
        (run_start (example_ec\<lparr> remote := Some True \<rparr>)
           (Selfplay_init (example_ec\<lparr> remote := Some True \<rparr>))))) = []"
proof -
  have r: "remote (example_ec\<lparr> remote := Some True \<rparr>) = Some True" by simp
  have m: "remote example_ec \<noteq> Some True" by (simp add: example_ec_def)
  have l: "example_loads (received_bytes (snd (''10.0.0.1'', [''S./mnk_model/ckpt-42''])))
             = Inr (Str ''./mnk_model/ckpt-42'')"
    by (simp add: example_loads_def received_bytes_def)
  have "\<exists>s. selfplay_steps example_world example_gc (example_ec\<lparr> remote := Some True \<rparr>)
        [Launcher_acquire, Update_conn (''10.0.0.1'', [''S./mnk_model/ckpt-42'']), Launcher_start,
         Unit_exit (Inr (Str ''g'')) None]
        (run_start (example_ec\<lparr> remote := Some True \<rparr>)
           (Selfplay_init (example_ec\<lparr> remote := Some True \<rparr>))) = Some s"
    by (simp add: selfplay_step_def thread_turn_def remote_update_turn_def launcher_acquire_def
          launcher_start_def unit_exit_def selfplay_wrapper_def nn_load_def log_def Let_def
          run_start_def run_threads_def Selfplay_init_def example_ec_def example_world_def
          example_loads_def)
  then obtain s where s: "selfplay_steps example_world example_gc (example_ec\<lparr> remote := Some True \<rparr>)
        [Launcher_acquire, Update_conn (''10.0.0.1'', [''S./mnk_model/ckpt-42'']), Launcher_start,
         Unit_exit (Inr (Str ''g'')) None]
        (run_start (example_ec\<lparr> remote := Some True \<rparr>)
           (Selfplay_init (example_ec\<lparr> remote := Some True \<rparr>))) = Some s" ..
  from r l s remote_runs_update_listener_only
     [of "example_ec\<lparr> remote := Some True \<rparr>" example_loads
         "(''10.0.0.1'', [''S./mnk_model/ckpt-42''])" "Str ''./mnk_model/ckpt-42''" example_remote
         example_world example_gc
         "[Launcher_acquire, Update_conn (''10.0.0.1'', [''S./mnk_model/ckpt-42'']), Launcher_start,
           Unit_exit (Inr (Str ''g'')) None]" s]
  have 1: "run_threads (example_ec\<lparr> remote := Some True \<rparr>) = [Remote_update_handler]"
    and 3: "remote_update_turn example_loads (''10.0.0.1'', [''S./mnk_model/ckpt-42'']) example_remote =
        (None, example_remote\<lparr> loaded := Some (Str ''./mnk_model/ckpt-42''),
                 trace := trace example_remote @ [Listen, Accept (fst (''10.0.0.1'', [''S./mnk_model/ckpt-42'']))]
                    @ recv_events (snd (''10.0.0.1'', [''S./mnk_model/ckpt-42'']))
                    @ [Close (fst (''10.0.0.1'', [''S./mnk_model/ckpt-42''])), Load (Str ''./mnk_model/ckpt-42'')] \<rparr>)"
    and 4: "remote_worker_reg s = []"
    by blast+
  from m remote_runs_update_listener_only [of example_ec]
  have 2: "run_threads example_ec = [Rcv_remote_data_handler, Model_update_handler]"
    by blast
  from 1 2 4 s show ?thesis
    unfolding 3 by (simp add: recv_events_def example_remote_def Selfplay_init_def)
qed

end
